theory Spec2Isabelle
  imports Main "HOL-Library.Sublist"
begin

section \<open>JavaScript values as the handlers use them\<close>

text \<open>
  A JavaScript string is modelled as a \<open>string\<close> (a list of bytes). The only characters
  beyond ASCII that the handlers write are the music signs of the key tables; they are
  kept as their three UTF-8 bytes. A line break is the single byte 10.
\<close>

definition newline :: string where
  "newline = [CHR 0x0A]"

definition sharp_sign :: string where
  "sharp_sign = [CHR 0xE2, CHR 0x99, CHR 0xAF]"

definition flat_sign :: string where
  "flat_sign = [CHR 0xE2, CHR 0x99, CHR 0xAD]"

text \<open>
  The numbers the handlers add and print are modelled as natural numbers, added exactly
  and printed in decimal: \<open>show_nat\<close> for a non-negative integer, \<open>show_int\<close> for
  any integer. JavaScript's numbers are doubles. The two agree as long as every number
  involved is an integer below \<open>2^53\<close> (\<open>safe_integer\<close>): from there on a double
  sum is rounded, and large numbers print with padding zeros or an exponent. A property
  that depends on such a number carries \<open>safe_integer\<close> as a hypothesis. Lengths and
  indices of arrays are always in that range.
\<close>

definition safe_integer :: "nat \<Rightarrow> bool" where
  "safe_integer n = (n < 2 ^ 53)"


definition digit_char :: "nat \<Rightarrow> char" where
  "digit_char n = ''0123456789'' ! n"

fun show_nat :: "nat \<Rightarrow> string" where
  "show_nat n =
     (if n < 10 then [digit_char n] else show_nat (n div 10) @ [digit_char (n mod 10)])"

declare show_nat.simps [simp del]

definition show_int :: "int \<Rightarrow> string" where
  "show_int i = (if i < 0 then ''-'' @ show_nat (nat (- i)) else show_nat (nat i))"

text \<open>\<open>Array.prototype.join\<close>: the elements with the separator between neighbours.\<close>

fun join :: "string \<Rightarrow> string list \<Rightarrow> string" where
  "join sep [] = []"
| "join sep [x] = x"
| "join sep (x # y # ys) = x @ sep @ join sep (y # ys)"

text \<open>
  \<open>xs.map((x, i) => f(x, i))\<close>: the callback receives the element and its 0-based index.
\<close>

definition map_index :: "('a \<Rightarrow> nat \<Rightarrow> 'b) \<Rightarrow> 'a list \<Rightarrow> 'b list" where
  "map_index f xs = map (\<lambda>(x, i). f x i) (zip xs [0..<length xs])"

text \<open>
  \<open>xs[i]\<close> on an array: the element when \<open>i\<close> is an index of the array, and
  \<open>undefined\<close> (here \<open>None\<close>) everywhere else, also at a negative \<open>i\<close>.
\<close>

definition js_index :: "'a list \<Rightarrow> int \<Rightarrow> 'a option" where
  "js_index xs i = (if 0 \<le> i \<and> nat i < length xs then Some (xs ! nat i) else None)"

text \<open>
  A string field that the service may deliver as \<open>null\<close> or leave out, and its text
  inside a template literal: \<open>null\<close> and \<open>undefined\<close> print their names.
\<close>

datatype js_string = Undefined | Null | Str string

definition js_text :: "js_string \<Rightarrow> string" where
  "js_text v = (case v of Undefined \<Rightarrow> ''undefined'' | Null \<Rightarrow> ''null'' | Str s \<Rightarrow> s)"

text \<open>
  A string-valued expression that is a string or \<open>undefined\<close>, inside a template
  literal.
\<close>

definition js_str :: "string option \<Rightarrow> string" where
  "js_str v = (case v of None \<Rightarrow> ''undefined'' | Some s \<Rightarrow> s)"

text \<open>
  Truthiness of an optional string argument: \<open>undefined\<close> and the empty string are
  both falsy.
\<close>

definition truthy :: "string option \<Rightarrow> bool" where
  "truthy v = (case v of None \<Rightarrow> False | Some s \<Rightarrow> s \<noteq> [])"

text \<open>\<open>a || b\<close> on strings: \<open>b\<close> when \<open>a\<close> is empty.\<close>

definition or_else :: "string \<Rightarrow> string \<Rightarrow> string" where
  "or_else a b = (if a = [] then b else a)"

section \<open>Formatting helpers\<close>

text \<open>\<open>s.padStart(2, '0')\<close>.\<close>

definition padStart2 :: "string \<Rightarrow> string" where
  "padStart2 s = replicate (2 - length s) (CHR ''0'') @ s"

text \<open>
  Modelled from the spec: \<open>formatDuration\<close> of \<open>utils.ts\<close>, which the handlers import
  and which is not among the sources. The specification describes it as the pure function
  from a millisecond duration to the minutes, a colon and the seconds zero-padded to two
  digits, with 65000 giving \<open>1:05\<close>.
\<close>

definition formatDuration :: "nat \<Rightarrow> string" where
  "formatDuration ms =
     (let minutes = ms div 60000;
          seconds = (ms mod 60000) div 1000
      in show_nat minutes @ '':'' @ padStart2 (show_nat seconds))"

section \<open>Key names of the audio-features operations\<close>

text \<open>The table of \<open>getTrackAudioFeatures\<close> in \<open>read.ts\<close>.\<close>

definition keyNames_read :: "string list" where
  "keyNames_read =
     [''C'', ''C'' @ sharp_sign @ ''/D'' @ flat_sign, ''D'',
      ''D'' @ sharp_sign @ ''/E'' @ flat_sign, ''E'', ''F'',
      ''F'' @ sharp_sign @ ''/G'' @ flat_sign, ''G'',
      ''G'' @ sharp_sign @ ''/A'' @ flat_sign, ''A'',
      ''A'' @ sharp_sign @ ''/B'' @ flat_sign, ''B'']"

text \<open>The table of the \<open>audio_features\<close> operation in \<open>info.ts\<close>.\<close>

definition keyNames_info :: "string list" where
  "keyNames_info =
     [''C'', ''C'' @ sharp_sign, ''D'', ''D'' @ sharp_sign, ''E'', ''F'',
      ''F'' @ sharp_sign, ''G'', ''G'' @ sharp_sign, ''A'', ''A'' @ sharp_sign, ''B'']"

text \<open>
  \<open>features.key !== -1 ? keyNames[features.key] : 'Unknown'\<close>. The first component lists
  the indices at which the table is read, the second is the value of the expression.
\<close>

definition keyName :: "string list \<Rightarrow> int \<Rightarrow> int list \<times> string option" where
  "keyName keyNames k =
     (if k \<noteq> - 1 then ([k], js_index keyNames k) else ([], Some ''Unknown''))"

text \<open>\<open>features.mode === 1 ? 'Major' : 'Minor'\<close>.\<close>

definition modeName :: "int \<Rightarrow> string" where
  "modeName m = (if m = 1 then ''Major'' else ''Minor'')"

section \<open>Objects of the external music service\<close>

text \<open>
  The response objects are those of the service's SDK, reduced to the fields the handlers
  read. A field that may be missing or \<open>null\<close> is an \<open>option\<close>.
\<close>

datatype item_type = Track | Album | Artist | Playlist

fun type_str :: "item_type \<Rightarrow> string" where
  "type_str Track = ''track''"
| "type_str Album = ''album''"
| "type_str Artist = ''artist''"
| "type_str Playlist = ''playlist''"

record artist_obj =
  a_name :: string
  a_id :: string

record track_obj =
  t_name :: string
  t_id :: string
  t_artists :: "artist_obj list"
  t_duration_ms :: nat

record album_obj =
  al_name :: string
  al_id :: string
  al_artists :: "artist_obj list"
  al_total_tracks :: nat

text \<open>
  The display name of a playlist's owner is \<open>Undefined\<close> when the playlist has no
  owner or the owner no such field, and \<open>Null\<close> when the service delivers \<open>null\<close>.
\<close>

record playlist_obj =
  pl_name :: string
  pl_id :: string
  pl_description :: "string option"
  pl_owner_display_name :: js_string
  pl_tracks_total :: "nat option"

text \<open>
  What a playlist entry, a saved entry, the player or the queue holds: a track or
  something else (an episode). The handlers inspect its shape at run time, so the shape
  is data: \<open>it_artists\<close> is \<open>None\<close> when there is no artists array, \<open>it_album\<close> is
  \<open>None\<close> when there is no album and otherwise holds the album's name, which is a
  string, \<open>null\<close> or missing.
\<close>

record item_obj =
  it_type :: string
  it_name :: string
  it_id :: string
  it_artists :: "artist_obj list option"
  it_album :: "js_string option"
  it_duration_ms :: nat

record search_results =
  sr_tracks :: "track_obj list option"
  sr_albums :: "album_obj list option"
  sr_artists :: "artist_obj list option"
  sr_playlists :: "playlist_obj option list option"

record 'a page =
  items :: "'a list"
  total :: nat

record saved_item =
  sv_track :: "item_obj option"
  sv_added_at :: string

record currently_playing =
  cp_item :: "item_obj option"
  cp_progress_ms :: "nat option"
  cp_is_playing :: bool

record queue_obj =
  q_currently_playing :: "item_obj option"
  q_queue :: "item_obj list"

text \<open>
  Audio features. The key, the mode and the time signature are integers; the other
  fields are floating-point numbers, kept abstract in the type \<open>'n\<close>.
\<close>

record 'n audio_features =
  tempo :: 'n
  key :: int
  mode :: int
  energy :: 'n
  danceability :: 'n
  valence :: 'n
  acousticness :: 'n
  instrumentalness :: 'n
  liveness :: 'n
  speechiness :: 'n
  loudness :: 'n
  time_signature :: int

text \<open>
  The operations of the JavaScript runtime on those numbers, as far as the handlers use
  them: truthiness, \<open>Math.round\<close>, multiplication by 100, \<open>toFixed\<close> and the printing of
  a number inside a template literal.
\<close>

record 'n number_ops =
  num_truthy :: "'n \<Rightarrow> bool"
  math_round :: "'n \<Rightarrow> 'n"
  times_100 :: "'n \<Rightarrow> 'n"
  toFixed :: "'n \<Rightarrow> nat \<Rightarrow> string"
  num_str :: "'n \<Rightarrow> string"

section \<open>The external client, its calls and their failures\<close>

text \<open>A thrown \<open>Error\<close> with its message.\<close>

datatype error = Error string

fun message :: "error \<Rightarrow> string" where
  "message (Error m) = m"

text \<open>The requests a handler can send to the client, with the arguments it passes.\<close>

datatype api_call =
    Search string "item_type list" nat
  | UserPlaylists nat
  | GetPlaylistItems string nat nat
  | SavedTracks nat nat
  | RecentlyPlayedTracks nat
  | AlbumsGet "string list"
  | AlbumTracks string nat nat
  | SaveAlbums "string list"
  | RemoveSavedAlbums "string list"
  | HasSavedAlbums "string list"
  | StartResumePlayback string "string option" "string list option"
  | PausePlayback string
  | SkipToNext string
  | SkipToPrevious string
  | AddItemToPlaybackQueue string string
  | Profile
  | CreatePlaylist string string "string option" bool
  | AddItemsToPlaylist string "string list" "nat option"
  | CurrentlyPlayingTrack
  | AudioFeatures string
  | UsersQueue

text \<open>
  The client answers every request with a value of the method's result type or throws.
  Nothing is assumed about the answers: the client is a parameter of every handler.
  A page of playlist entries or of recently played entries holds, for each entry, its
  \<open>track\<close> field, which is all the handlers read of it; a user profile and a created
  playlist are reduced to their \<open>id\<close>. Limits, offsets and positions are natural
  numbers.
\<close>

record 'n spotify_api =
  api_search :: "string \<Rightarrow> item_type list \<Rightarrow> nat \<Rightarrow> error + search_results"
  api_playlists :: "nat \<Rightarrow> error + playlist_obj page"
  api_getPlaylistItems :: "string \<Rightarrow> nat \<Rightarrow> nat \<Rightarrow> error + item_obj option page"
  api_savedTracks :: "nat \<Rightarrow> nat \<Rightarrow> error + saved_item page"
  api_getRecentlyPlayedTracks :: "nat \<Rightarrow> error + item_obj option page"
  api_albums_get :: "string list \<Rightarrow> error + album_obj list"
  api_albums_tracks :: "string \<Rightarrow> nat \<Rightarrow> nat \<Rightarrow> error + track_obj page"
  api_saveAlbums :: "string list \<Rightarrow> error + unit"
  api_removeSavedAlbums :: "string list \<Rightarrow> error + unit"
  api_hasSavedAlbums :: "string list \<Rightarrow> error + bool list"
  api_startResumePlayback ::
    "string \<Rightarrow> string option \<Rightarrow> string list option \<Rightarrow> error + unit"
  api_pausePlayback :: "string \<Rightarrow> error + unit"
  api_skipToNext :: "string \<Rightarrow> error + unit"
  api_skipToPrevious :: "string \<Rightarrow> error + unit"
  api_addItemToPlaybackQueue :: "string \<Rightarrow> string \<Rightarrow> error + unit"
  api_profile :: "error + string"
  api_createPlaylist :: "string \<Rightarrow> string \<Rightarrow> string option \<Rightarrow> bool \<Rightarrow> error + string"
  api_addItemsToPlaylist :: "string \<Rightarrow> string list \<Rightarrow> nat option \<Rightarrow> error + unit"
  api_getCurrentlyPlayingTrack :: "error + currently_playing option"
  api_audioFeatures :: "string \<Rightarrow> error + 'n audio_features option"
  api_getUsersQueue :: "error + queue_obj option"

text \<open>
  An asynchronous computation of a handler: the requests it has sent, in order, and
  either the error it threw (\<open>Inl\<close>) or its value (\<open>Inr\<close>).
\<close>

type_synonym 'a eff = "api_call list \<times> (error + 'a)"

definition done_with :: "'a \<Rightarrow> 'a eff" where
  "done_with x = ([], Inr x)"

definition request :: "api_call \<Rightarrow> error + 'a \<Rightarrow> 'a eff" where
  "request c answer = ([c], answer)"

text \<open>\<open>await m\<close> followed by the rest of the function; a thrown error skips the rest.\<close>

definition await :: "'a eff \<Rightarrow> ('a \<Rightarrow> 'b eff) \<Rightarrow> 'b eff" where
  "await m f =
     (case m of
        (cs, Inl e) \<Rightarrow> (cs, Inl e)
      | (cs, Inr x) \<Rightarrow> (case f x of (cs', r) \<Rightarrow> (cs @ cs', r)))"

text \<open>\<open>try { m } catch (error) { return h(error) }\<close>.\<close>

definition try_catch :: "'a eff \<Rightarrow> (error \<Rightarrow> 'a) \<Rightarrow> 'a eff" where
  "try_catch m h = (case m of (cs, Inl e) \<Rightarrow> (cs, Inr (h e)) | (cs, Inr x) \<Rightarrow> (cs, Inr x))"

definition calls :: "'a eff \<Rightarrow> api_call list" where
  "calls m = fst m"

definition outcome :: "'a eff \<Rightarrow> error + 'a" where
  "outcome m = snd m"

text \<open>
  Modelled from the spec: \<open>handleSpotifyRequest\<close> of \<open>utils.ts\<close>, which is not among the
  sources. The specification describes it as a pass-through that obtains a ready client
  and runs the supplied callback against it, surfacing any thrown error to the caller,
  with no retry. Obtaining the client can itself fail, so the environment of a handler
  is either that failure or the client.
\<close>

definition handleSpotifyRequest :: "error + 'api \<Rightarrow> ('api \<Rightarrow> 'a eff) \<Rightarrow> 'a eff" where
  "handleSpotifyRequest client action =
     (case client of Inl e \<Rightarrow> ([], Inl e) | Inr api \<Rightarrow> action api)"

text \<open>The uniform reply of a tool: \<open>{ content: [{ type: 'text', text }] }\<close>.\<close>

datatype content_item = TextContent string

record tool_result =
  content :: "content_item list"

definition text_result :: "string \<Rightarrow> tool_result" where
  "text_result t = \<lparr>content = [TextContent t]\<rparr>"

text \<open>Small pieces of the templates.\<close>

definition dq :: string where
  "dq = [CHR 0x22]"

definition artist_names :: "artist_obj list \<Rightarrow> string" where
  "artist_names artists = join '', '' (map a_name artists)"

definition default_to :: "'a \<Rightarrow> 'a option \<Rightarrow> 'a" where
  "default_to d v = (case v of None \<Rightarrow> d | Some x \<Rightarrow> x)"

text \<open>\<open>s || ''\<close> for an optional string.\<close>

definition or_empty :: "string option \<Rightarrow> string" where
  "or_empty v = (case v of None \<Rightarrow> [] | Some s \<Rightarrow> s)"

section \<open>The library tool (\<open>library.ts\<close>)\<close>

text \<open>
  The type guard of \<open>library.ts\<close> and \<open>info.ts\<close>: the item exists, its type is
  \<open>track\<close>, it has an artists array and an album.
\<close>

definition isTrack :: "item_obj option \<Rightarrow> bool" where
  "isTrack item =
     (case item of
        None \<Rightarrow> False
      | Some it \<Rightarrow> it_type it = ''track'' \<and> it_artists it \<noteq> None \<and> it_album it \<noteq> None)"

text \<open>\<open>t.artists.map(a => a.name).join(', ')\<close> on an item that passed the guard.\<close>

definition item_artist_names :: "item_obj \<Rightarrow> string" where
  "item_artist_names t = (case it_artists t of None \<Rightarrow> [] | Some artists \<Rightarrow> artist_names artists)"

datatype library_op =
    L_search | L_playlists | L_playlist_tracks | L_saved_tracks | L_recently_played
  | L_albums | L_album_tracks | L_save_album | L_remove_album | L_check_saved

record library_args =
  l_operation :: library_op
  l_query :: "string option"
  l_type :: "item_type option"
  l_playlist_id :: "string option"
  l_album_ids :: "string list option"
  l_limit :: "nat option"
  l_offset :: "nat option"

text \<open>The destructuring defaults \<open>limit = 20\<close> and \<open>offset = 0\<close>.\<close>

definition l_limit_of :: "library_args \<Rightarrow> nat" where
  "l_limit_of args = default_to 20 (l_limit args)"

definition l_offset_of :: "library_args \<Rightarrow> nat" where
  "l_offset_of args = default_to 0 (l_offset args)"

definition library_search_text :: "item_type \<Rightarrow> search_results \<Rightarrow> string" where
  "library_search_text ty results =
     (case ty of
        Track \<Rightarrow>
          (case sr_tracks results of
             None \<Rightarrow> []
           | Some its \<Rightarrow>
               join newline (map_index (\<lambda>t i.
                 show_nat (i + 1) @ ''. '' @ dq @ t_name t @ dq @ '' by '' @
                 artist_names (t_artists t) @ '' - ID: '' @ t_id t) its))
      | Album \<Rightarrow>
          (case sr_albums results of
             None \<Rightarrow> []
           | Some its \<Rightarrow>
               join newline (map_index (\<lambda>a i.
                 show_nat (i + 1) @ ''. '' @ dq @ al_name a @ dq @ '' by '' @
                 artist_names (al_artists a) @ '' - ID: '' @ al_id a) its))
      | Artist \<Rightarrow>
          (case sr_artists results of
             None \<Rightarrow> []
           | Some its \<Rightarrow>
               join newline (map_index (\<lambda>a i.
                 show_nat (i + 1) @ ''. '' @ a_name a @ '' - ID: '' @ a_id a) its))
      | Playlist \<Rightarrow>
          (case sr_playlists results of
             None \<Rightarrow> []
           | Some its \<Rightarrow>
               join newline (map_index (\<lambda>p i.
                 show_nat (i + 1) @ ''. '' @ dq @ js_str (map_option pl_name p) @ dq @ '' by '' @
                 js_text (case p of None \<Rightarrow> Undefined | Some pl \<Rightarrow> pl_owner_display_name pl) @
                 '' - ID: '' @
                 js_str (map_option pl_id p)) its)))"

definition library_search :: "error + 'n spotify_api \<Rightarrow> library_args \<Rightarrow> tool_result eff" where
  "library_search client args =
     (case (l_query args, l_type args) of
        (Some query, Some ty) \<Rightarrow>
          if query = [] then done_with (text_result ''Error: query and type required'')
          else
            await (handleSpotifyRequest client (\<lambda>api.
                     request (Search query [ty] (l_limit_of args))
                       (api_search api query [ty] (l_limit_of args))))
              (\<lambda>results.
                 done_with (text_result (or_else (library_search_text ty results) ''No results'')))
      | _ \<Rightarrow> done_with (text_result ''Error: query and type required''))"

definition library_playlists :: "error + 'n spotify_api \<Rightarrow> library_args \<Rightarrow> tool_result eff" where
  "library_playlists client args =
     await (handleSpotifyRequest client (\<lambda>api.
              request (UserPlaylists (l_limit_of args)) (api_playlists api (l_limit_of args))))
       (\<lambda>playlists.
          done_with (text_result (or_else
            (join newline (map_index (\<lambda>p i.
               show_nat (i + 1) @ ''. '' @ dq @ pl_name p @ dq @ '' ('' @
               show_nat (default_to 0 (pl_tracks_total p)) @ '' tracks) - ID: '' @ pl_id p)
               (items playlists)))
            ''No playlists'')))"

text \<open>The line of one entry in \<open>playlist_tracks\<close> and \<open>saved_tracks\<close>.\<close>

definition library_item_line :: "nat \<Rightarrow> item_obj option \<Rightarrow> nat \<Rightarrow> string" where
  "library_item_line offset item i =
     (case item of
        None \<Rightarrow> show_nat (offset + i + 1) @ ''. [Unknown]''
      | Some t \<Rightarrow>
          if \<not> isTrack (Some t) then show_nat (offset + i + 1) @ ''. [Unknown]''
          else show_nat (offset + i + 1) @ ''. '' @ dq @ it_name t @ dq @ '' by '' @
               item_artist_names t @ '' - ID: '' @ it_id t)"

definition library_playlist_tracks ::
  "error + 'n spotify_api \<Rightarrow> library_args \<Rightarrow> tool_result eff" where
  "library_playlist_tracks client args =
     (case l_playlist_id args of
        None \<Rightarrow> done_with (text_result ''Error: playlist_id required'')
      | Some playlist_id \<Rightarrow>
          if playlist_id = [] then done_with (text_result ''Error: playlist_id required'')
          else
            await (handleSpotifyRequest client (\<lambda>api.
                     request (GetPlaylistItems playlist_id (l_limit_of args) (l_offset_of args))
                       (api_getPlaylistItems api playlist_id (l_limit_of args) (l_offset_of args))))
              (\<lambda>tracks.
                 done_with (text_result
                   (''Tracks '' @ show_nat (l_offset_of args + 1) @ ''-'' @
                    show_nat (l_offset_of args + length (items tracks)) @ '' of '' @
                    show_nat (total tracks) @ newline @ newline @
                    join newline (map_index (library_item_line (l_offset_of args)) (items tracks))))))"

definition library_saved_tracks ::
  "error + 'n spotify_api \<Rightarrow> library_args \<Rightarrow> tool_result eff" where
  "library_saved_tracks client args =
     await (handleSpotifyRequest client (\<lambda>api.
              request (SavedTracks (l_limit_of args) (l_offset_of args))
                (api_savedTracks api (l_limit_of args) (l_offset_of args))))
       (\<lambda>saved.
          done_with (text_result
            (''Liked Songs '' @ show_nat (l_offset_of args + 1) @ ''-'' @
             show_nat (l_offset_of args + length (items saved)) @ '' of '' @
             show_nat (total saved) @ newline @ newline @
             join newline (map_index (\<lambda>item. library_item_line (l_offset_of args) (sv_track item))
               (items saved)))))"

definition library_recently_played ::
  "error + 'n spotify_api \<Rightarrow> library_args \<Rightarrow> tool_result eff" where
  "library_recently_played client args =
     await (handleSpotifyRequest client (\<lambda>api.
              request (RecentlyPlayedTracks (l_limit_of args))
                (api_getRecentlyPlayedTracks api (l_limit_of args))))
       (\<lambda>history.
          done_with (text_result (or_else
            (join newline (map_index (library_item_line 0) (items history)))
            ''No history'')))"

definition library_albums :: "error + 'n spotify_api \<Rightarrow> library_args \<Rightarrow> tool_result eff" where
  "library_albums client args =
     (case l_album_ids args of
        None \<Rightarrow> done_with (text_result ''Error: album_ids required'')
      | Some album_ids \<Rightarrow>
          if length album_ids = 0 then done_with (text_result ''Error: album_ids required'')
          else
            await (handleSpotifyRequest client (\<lambda>api.
                     request (AlbumsGet (take 20 album_ids)) (api_albums_get api (take 20 album_ids))))
              (\<lambda>albums.
                 done_with (text_result
                   (join newline (map_index (\<lambda>a i.
                      show_nat (i + 1) @ ''. '' @ dq @ al_name a @ dq @ '' by '' @
                      artist_names (al_artists a) @ '' ('' @ show_nat (al_total_tracks a) @
                      '' tracks) - ID: '' @ al_id a) albums)))))"

definition library_album_tracks ::
  "error + 'n spotify_api \<Rightarrow> library_args \<Rightarrow> tool_result eff" where
  "library_album_tracks client args =
     (case l_album_ids args of
        Some (album_id # _) \<Rightarrow>
          if album_id = [] then done_with (text_result ''Error: album_ids[0] required'')
          else
            await (handleSpotifyRequest client (\<lambda>api.
                     request (AlbumTracks album_id (l_limit_of args) (l_offset_of args))
                       (api_albums_tracks api album_id (l_limit_of args) (l_offset_of args))))
              (\<lambda>tracks.
                 done_with (text_result
                   (join newline (map_index (\<lambda>t i.
                      show_nat (l_offset_of args + i + 1) @ ''. '' @ dq @ t_name t @ dq @
                      '' by '' @ artist_names (t_artists t) @ '' ('' @
                      formatDuration (t_duration_ms t) @ '') - ID: '' @ t_id t) (items tracks)))))
      | _ \<Rightarrow> done_with (text_result ''Error: album_ids[0] required''))"

definition library_save_album ::
  "error + 'n spotify_api \<Rightarrow> library_args \<Rightarrow> tool_result eff" where
  "library_save_album client args =
     (case l_album_ids args of
        None \<Rightarrow> done_with (text_result ''Error: album_ids required'')
      | Some album_ids \<Rightarrow>
          if length album_ids = 0 then done_with (text_result ''Error: album_ids required'')
          else
            await (handleSpotifyRequest client (\<lambda>api.
                     request (SaveAlbums (take 20 album_ids)) (api_saveAlbums api (take 20 album_ids))))
              (\<lambda>_. done_with (text_result
                   (''Saved '' @ show_nat (length album_ids) @ '' album(s)''))))"

definition library_remove_album ::
  "error + 'n spotify_api \<Rightarrow> library_args \<Rightarrow> tool_result eff" where
  "library_remove_album client args =
     (case l_album_ids args of
        None \<Rightarrow> done_with (text_result ''Error: album_ids required'')
      | Some album_ids \<Rightarrow>
          if length album_ids = 0 then done_with (text_result ''Error: album_ids required'')
          else
            await (handleSpotifyRequest client (\<lambda>api.
                     request (RemoveSavedAlbums (take 20 album_ids))
                       (api_removeSavedAlbums api (take 20 album_ids))))
              (\<lambda>_. done_with (text_result
                   (''Removed '' @ show_nat (length album_ids) @ '' album(s)''))))"

text \<open>
  \<open>saved[i] ? 'saved' : 'not saved'\<close>: an index beyond the answer reads \<open>undefined\<close>,
  which is falsy.
\<close>

definition saved_word :: "bool list \<Rightarrow> nat \<Rightarrow> string" where
  "saved_word saved i =
     (case js_index saved (int i) of Some True \<Rightarrow> ''saved'' | _ \<Rightarrow> ''not saved'')"

definition library_check_saved ::
  "error + 'n spotify_api \<Rightarrow> library_args \<Rightarrow> tool_result eff" where
  "library_check_saved client args =
     (case l_album_ids args of
        None \<Rightarrow> done_with (text_result ''Error: album_ids required'')
      | Some album_ids \<Rightarrow>
          if length album_ids = 0 then done_with (text_result ''Error: album_ids required'')
          else
            await (handleSpotifyRequest client (\<lambda>api.
                     request (HasSavedAlbums (take 20 album_ids))
                       (api_hasSavedAlbums api (take 20 album_ids))))
              (\<lambda>saved.
                 done_with (text_result
                   (join newline (map_index (\<lambda>id i. id @ '': '' @ saved_word saved i)
                      album_ids)))))"

text \<open>
  The handler: a switch over the operation. The schema admits the ten operations only,
  so the \<open>default\<close> branch of the source is never taken.
\<close>

definition spotifyLibrary :: "error + 'n spotify_api \<Rightarrow> library_args \<Rightarrow> tool_result eff" where
  "spotifyLibrary client args =
     (case l_operation args of
        L_search \<Rightarrow> library_search client args
      | L_playlists \<Rightarrow> library_playlists client args
      | L_playlist_tracks \<Rightarrow> library_playlist_tracks client args
      | L_saved_tracks \<Rightarrow> library_saved_tracks client args
      | L_recently_played \<Rightarrow> library_recently_played client args
      | L_albums \<Rightarrow> library_albums client args
      | L_album_tracks \<Rightarrow> library_album_tracks client args
      | L_save_album \<Rightarrow> library_save_album client args
      | L_remove_album \<Rightarrow> library_remove_album client args
      | L_check_saved \<Rightarrow> library_check_saved client args)"

section \<open>The playback tool (\<open>playback.ts\<close>)\<close>

datatype playback_op =
    P_play | P_pause | P_resume | P_skip_next | P_skip_prev | P_queue
  | P_create_playlist | P_add_to_playlist

record playback_args =
  p_operation :: playback_op
  p_uri :: "string option"
  p_type :: "item_type option"
  p_id :: "string option"
  p_device_id :: "string option"
  p_name :: "string option"
  p_description :: "string option"
  p_public :: "bool option"
  p_playlist_id :: "string option"
  p_track_ids :: "string list option"
  p_position :: "nat option"

text \<open>\<open>uri || (type && id)\<close> as a condition.\<close>

definition uri_or_type_id :: "playback_args \<Rightarrow> bool" where
  "uri_or_type_id args = (truthy (p_uri args) \<or> (p_type args \<noteq> None \<and> truthy (p_id args)))"

text \<open>\<open>uri || `spotify:${type}:${id}`\<close>.\<close>

definition spotifyUri :: "playback_args \<Rightarrow> string" where
  "spotifyUri args =
     (if truthy (p_uri args) then or_empty (p_uri args)
      else ''spotify:'' @ js_str (map_option type_str (p_type args)) @ '':'' @ js_str (p_id args))"

definition playback_play :: "error + 'n spotify_api \<Rightarrow> playback_args \<Rightarrow> tool_result eff" where
  "playback_play client args =
     (if \<not> uri_or_type_id args then done_with (text_result ''Error: Provide uri OR type+id'')
      else
        await (handleSpotifyRequest client (\<lambda>api.
                 if p_type args = Some Track
                 then request
                        (StartResumePlayback (or_empty (p_device_id args)) None
                           (Some [spotifyUri args]))
                        (api_startResumePlayback api (or_empty (p_device_id args)) None
                           (Some [spotifyUri args]))
                 else request
                        (StartResumePlayback (or_empty (p_device_id args))
                           (Some (spotifyUri args)) None)
                        (api_startResumePlayback api (or_empty (p_device_id args))
                           (Some (spotifyUri args)) None)))
          (\<lambda>_. done_with (text_result
               (''Playing '' @ (case p_type args of None \<Rightarrow> ''music'' | Some ty \<Rightarrow> type_str ty)))))"

definition playback_pause :: "error + 'n spotify_api \<Rightarrow> playback_args \<Rightarrow> tool_result eff" where
  "playback_pause client args =
     await (handleSpotifyRequest client (\<lambda>api.
              request (PausePlayback (or_empty (p_device_id args)))
                (api_pausePlayback api (or_empty (p_device_id args)))))
       (\<lambda>_. done_with (text_result ''Paused''))"

definition playback_resume :: "error + 'n spotify_api \<Rightarrow> playback_args \<Rightarrow> tool_result eff" where
  "playback_resume client args =
     await (handleSpotifyRequest client (\<lambda>api.
              request (StartResumePlayback (or_empty (p_device_id args)) None None)
                (api_startResumePlayback api (or_empty (p_device_id args)) None None)))
       (\<lambda>_. done_with (text_result ''Resumed''))"

definition playback_skip_next ::
  "error + 'n spotify_api \<Rightarrow> playback_args \<Rightarrow> tool_result eff" where
  "playback_skip_next client args =
     await (handleSpotifyRequest client (\<lambda>api.
              request (SkipToNext (or_empty (p_device_id args)))
                (api_skipToNext api (or_empty (p_device_id args)))))
       (\<lambda>_. done_with (text_result ''Skipped to next''))"

definition playback_skip_prev ::
  "error + 'n spotify_api \<Rightarrow> playback_args \<Rightarrow> tool_result eff" where
  "playback_skip_prev client args =
     await (handleSpotifyRequest client (\<lambda>api.
              request (SkipToPrevious (or_empty (p_device_id args)))
                (api_skipToPrevious api (or_empty (p_device_id args)))))
       (\<lambda>_. done_with (text_result ''Skipped to previous''))"

definition playback_queue :: "error + 'n spotify_api \<Rightarrow> playback_args \<Rightarrow> tool_result eff" where
  "playback_queue client args =
     (if \<not> uri_or_type_id args then done_with (text_result ''Error: Provide uri OR type+id'')
      else
        await (handleSpotifyRequest client (\<lambda>api.
                 request (AddItemToPlaybackQueue (spotifyUri args) (or_empty (p_device_id args)))
                   (api_addItemToPlaybackQueue api (spotifyUri args)
                      (or_empty (p_device_id args)))))
          (\<lambda>_. done_with (text_result (''Added to queue: '' @ spotifyUri args))))"

definition playback_create_playlist ::
  "error + 'n spotify_api \<Rightarrow> playback_args \<Rightarrow> tool_result eff" where
  "playback_create_playlist client args =
     (case p_name args of
        None \<Rightarrow> done_with (text_result ''Error: name required'')
      | Some name \<Rightarrow>
          if name = [] then done_with (text_result ''Error: name required'')
          else
            await (handleSpotifyRequest client (\<lambda>api.
                     await (request Profile (api_profile api))
                       (\<lambda>me_id.
                          request
                            (CreatePlaylist me_id name (p_description args)
                               (default_to False (p_public args)))
                            (api_createPlaylist api me_id name (p_description args)
                               (default_to False (p_public args))))))
              (\<lambda>result_id.
                 done_with (text_result
                   (''Created playlist '' @ dq @ name @ dq @ '' (ID: '' @ result_id @ '')''))))"

definition playback_add_to_playlist ::
  "error + 'n spotify_api \<Rightarrow> playback_args \<Rightarrow> tool_result eff" where
  "playback_add_to_playlist client args =
     (case (p_playlist_id args, p_track_ids args) of
        (Some playlist_id, Some track_ids) \<Rightarrow>
          if playlist_id = [] \<or> length track_ids = 0
          then done_with (text_result ''Error: playlist_id and track_ids required'')
          else
            await (handleSpotifyRequest client (\<lambda>api.
                     request
                       (AddItemsToPlaylist playlist_id
                          (map (\<lambda>id. ''spotify:track:'' @ id) track_ids) (p_position args))
                       (api_addItemsToPlaylist api playlist_id
                          (map (\<lambda>id. ''spotify:track:'' @ id) track_ids) (p_position args))))
              (\<lambda>_. done_with (text_result
                   (''Added '' @ show_nat (length track_ids) @ '' tracks to playlist'')))
      | _ \<Rightarrow> done_with (text_result ''Error: playlist_id and track_ids required''))"

definition spotifyPlayback ::
  "error + 'n spotify_api \<Rightarrow> playback_args \<Rightarrow> tool_result eff" where
  "spotifyPlayback client args =
     (case p_operation args of
        P_play \<Rightarrow> playback_play client args
      | P_pause \<Rightarrow> playback_pause client args
      | P_resume \<Rightarrow> playback_resume client args
      | P_skip_next \<Rightarrow> playback_skip_next client args
      | P_skip_prev \<Rightarrow> playback_skip_prev client args
      | P_queue \<Rightarrow> playback_queue client args
      | P_create_playlist \<Rightarrow> playback_create_playlist client args
      | P_add_to_playlist \<Rightarrow> playback_add_to_playlist client args)"

section \<open>The info tool (\<open>info.ts\<close>)\<close>

datatype info_op = I_now_playing | I_enriched_now_playing | I_queue | I_audio_features

record info_args =
  i_operation :: info_op
  i_track_id :: "string option"
  i_limit :: "nat option"

text \<open>\<open>t.album.name\<close> inside a template, on an item that passed the guard.\<close>

definition item_album_name :: "item_obj \<Rightarrow> string" where
  "item_album_name t = (case it_album t of None \<Rightarrow> ''undefined'' | Some n \<Rightarrow> js_text n)"

text \<open>\<open>x.artists?.map(a => a.name).join(', ') || 'Unknown'\<close>.\<close>

definition artists_or_unknown :: "item_obj \<Rightarrow> string" where
  "artists_or_unknown t =
     (case it_artists t of
        None \<Rightarrow> ''Unknown''
      | Some artists \<Rightarrow> or_else (artist_names artists) ''Unknown'')"

text \<open>The four lines that both now-playing operations start with.\<close>

definition now_playing_lines :: "currently_playing \<Rightarrow> item_obj \<Rightarrow> string list" where
  "now_playing_lines current t =
     [''**Track**: '' @ dq @ it_name t @ dq,
      ''**Artist**: '' @ item_artist_names t,
      ''**Album**: '' @ item_album_name t,
      ''**Progress**: '' @ formatDuration (default_to 0 (cp_progress_ms current)) @ '' / '' @
        formatDuration (it_duration_ms t)]"

definition info_now_playing :: "error + 'n spotify_api \<Rightarrow> info_args \<Rightarrow> tool_result eff" where
  "info_now_playing client args =
     await (handleSpotifyRequest client (\<lambda>api.
              request CurrentlyPlayingTrack (api_getCurrentlyPlayingTrack api)))
       (\<lambda>current_opt.
          case current_opt of
            None \<Rightarrow> done_with (text_result ''Nothing playing'')
          | Some current \<Rightarrow>
              (case cp_item current of
                 None \<Rightarrow> done_with (text_result ''Nothing playing'')
               | Some t \<Rightarrow>
                   if \<not> isTrack (Some t) then done_with (text_result ''Nothing playing'')
                   else done_with (text_result (join newline
                     (now_playing_lines current t @
                      [''**Status**: '' @ (if cp_is_playing current then ''Playing'' else ''Paused''),
                       ''**ID**: '' @ it_id t])))))"

text \<open>
  The optional lines of \<open>enriched_now_playing\<close>: the tempo when it and its rounding are
  truthy, the key with the mode when both are known, energy and danceability when there
  are features at all.
\<close>

definition enriched_lines :: "'n number_ops \<Rightarrow> 'n audio_features option \<Rightarrow> string list" where
  "enriched_lines ops features =
     (case features of
        None \<Rightarrow> []
      | Some f \<Rightarrow>
          (if num_truthy ops (tempo f) \<and> num_truthy ops (math_round ops (tempo f))
           then [''**BPM**: '' @ num_str ops (math_round ops (tempo f))] else []) @
          (case (if key f \<noteq> - 1 then js_index keyNames_info (key f) else None,
                 if mode f = 1 then Some ''Major'' else if mode f = 0 then Some ''Minor'' else None)
           of (Some k, Some m) \<Rightarrow> (if k \<noteq> [] then [''**Key**: '' @ k @ '' '' @ m] else [])
            | _ \<Rightarrow> []) @
          [''**Energy**: '' @ toFixed ops (times_100 ops (energy f)) 0 @ ''%'',
           ''**Danceability**: '' @ toFixed ops (times_100 ops (danceability f)) 0 @ ''%''])"

definition info_enriched_now_playing ::
  "'n number_ops \<Rightarrow> error + 'n spotify_api \<Rightarrow> info_args \<Rightarrow> tool_result eff" where
  "info_enriched_now_playing ops client args =
     await (handleSpotifyRequest client (\<lambda>api.
              request CurrentlyPlayingTrack (api_getCurrentlyPlayingTrack api)))
       (\<lambda>current_opt.
          case current_opt of
            None \<Rightarrow> done_with (text_result ''Nothing playing'')
          | Some current \<Rightarrow>
              (case cp_item current of
                 None \<Rightarrow> done_with (text_result ''Nothing playing'')
               | Some t \<Rightarrow>
                   if \<not> isTrack (Some t) then done_with (text_result ''Nothing playing'')
                   else
                     await (handleSpotifyRequest client (\<lambda>api.
                              request (AudioFeatures (it_id t)) (api_audioFeatures api (it_id t))))
                       (\<lambda>features.
                          done_with (text_result (join newline
                            (now_playing_lines current t @ enriched_lines ops features @
                             [''**ID**: '' @ it_id t]))))))"

definition info_queue :: "error + 'n spotify_api \<Rightarrow> info_args \<Rightarrow> tool_result eff" where
  "info_queue client args =
     await (handleSpotifyRequest client (\<lambda>api. request UsersQueue (api_getUsersQueue api)))
       (\<lambda>queue.
          let current = Option.bind queue q_currently_playing;
              upcoming = take (default_to 10 (i_limit args))
                           (case queue of None \<Rightarrow> [] | Some q \<Rightarrow> q_queue q)
          in done_with (text_result
               (''# Queue'' @ newline @ newline @
                (case current of
                   None \<Rightarrow> []
                 | Some c \<Rightarrow> ''Now: '' @ dq @ it_name c @ dq @ '' by '' @ artists_or_unknown c @
                              newline @ newline) @
                (if length upcoming \<noteq> 0
                 then ''Up next:'' @ newline @
                      join newline (map_index (\<lambda>t i.
                        show_nat (i + 1) @ ''. '' @ dq @ it_name t @ dq @ '' by '' @
                        artists_or_unknown t @ '' - ID: '' @ it_id t) upcoming)
                 else ''Queue empty''))))"

definition info_audio_features_text :: "'n number_ops \<Rightarrow> 'n audio_features \<Rightarrow> string" where
  "info_audio_features_text ops features =
     join newline
       [''**BPM**: '' @ num_str ops (math_round ops (tempo features)),
        ''**Key**: '' @ js_str (snd (keyName keyNames_info (key features))) @ '' '' @
          modeName (mode features),
        ''**Energy**: '' @ toFixed ops (times_100 ops (energy features)) 0 @ ''%'',
        ''**Danceability**: '' @ toFixed ops (times_100 ops (danceability features)) 0 @ ''%'',
        ''**Valence**: '' @ toFixed ops (times_100 ops (valence features)) 0 @ ''%'',
        ''**Acousticness**: '' @ toFixed ops (times_100 ops (acousticness features)) 0 @ ''%'',
        ''**Instrumentalness**: '' @
          toFixed ops (times_100 ops (instrumentalness features)) 0 @ ''%'',
        ''**Loudness**: '' @ toFixed ops (loudness features) 1 @ '' dB'',
        ''**Time Sig**: '' @ show_int (time_signature features) @ ''/4'']"

definition info_audio_features ::
  "'n number_ops \<Rightarrow> error + 'n spotify_api \<Rightarrow> info_args \<Rightarrow> tool_result eff" where
  "info_audio_features ops client args =
     (case i_track_id args of
        None \<Rightarrow> done_with (text_result ''Error: track_id required'')
      | Some track_id \<Rightarrow>
          if track_id = [] then done_with (text_result ''Error: track_id required'')
          else
            await (handleSpotifyRequest client (\<lambda>api.
                     request (AudioFeatures track_id) (api_audioFeatures api track_id)))
              (\<lambda>features_opt.
                 case features_opt of
                   None \<Rightarrow> done_with (text_result ''No features found'')
                 | Some features \<Rightarrow>
                     done_with (text_result (info_audio_features_text ops features))))"

definition spotifyInfo ::
  "'n number_ops \<Rightarrow> error + 'n spotify_api \<Rightarrow> info_args \<Rightarrow> tool_result eff" where
  "spotifyInfo ops client args =
     (case i_operation args of
        I_now_playing \<Rightarrow> info_now_playing client args
      | I_enriched_now_playing \<Rightarrow> info_enriched_now_playing ops client args
      | I_queue \<Rightarrow> info_queue client args
      | I_audio_features \<Rightarrow> info_audio_features ops client args)"

section \<open>The single-purpose tools (\<open>read.ts\<close>)\<close>

text \<open>
  The type guard of \<open>read.ts\<close>, which also asks for a string as the album's name.
\<close>

definition isTrack_read :: "item_obj option \<Rightarrow> bool" where
  "isTrack_read item =
     (case item of
        None \<Rightarrow> False
      | Some it \<Rightarrow>
          it_type it = ''track'' \<and> it_artists it \<noteq> None \<and>
          (case it_album it of Some (Str _) \<Rightarrow> True | _ \<Rightarrow> False))"

record search_args =
  s_query :: string
  s_type :: item_type
  s_limit :: "nat option"

definition searchSpotify_results :: "item_type \<Rightarrow> search_results \<Rightarrow> string" where
  "searchSpotify_results ty results =
     (case ty of
        Track \<Rightarrow>
          (case sr_tracks results of
             None \<Rightarrow> []
           | Some its \<Rightarrow>
               join newline (map_index (\<lambda>track i.
                 show_nat (i + 1) @ ''. '' @ dq @ t_name track @ dq @ '' by '' @
                 artist_names (t_artists track) @ '' ('' @
                 formatDuration (t_duration_ms track) @ '') - ID: '' @ t_id track) its))
      | Album \<Rightarrow>
          (case sr_albums results of
             None \<Rightarrow> []
           | Some its \<Rightarrow>
               join newline (map_index (\<lambda>album i.
                 show_nat (i + 1) @ ''. '' @ dq @ al_name album @ dq @ '' by '' @
                 artist_names (al_artists album) @ '' - ID: '' @ al_id album) its))
      | Artist \<Rightarrow>
          (case sr_artists results of
             None \<Rightarrow> []
           | Some its \<Rightarrow>
               join newline (map_index (\<lambda>artist i.
                 show_nat (i + 1) @ ''. '' @ a_name artist @ '' - ID: '' @ a_id artist) its))
      | Playlist \<Rightarrow>
          (case sr_playlists results of
             None \<Rightarrow> []
           | Some its \<Rightarrow>
               join newline (map_index (\<lambda>playlist i.
                 show_nat (i + 1) @ ''. '' @ dq @
                 default_to ''Unknown Playlist'' (map_option pl_name playlist) @ '' ('' @
                 default_to ''No description'' (Option.bind playlist pl_description) @
                 '' tracks)'' @ dq @ '' by '' @
                 js_text (case playlist of None \<Rightarrow> Undefined
                          | Some pl \<Rightarrow> pl_owner_display_name pl) @ '' - ID: '' @
                 js_str (map_option pl_id playlist)) its)))"

definition searchSpotify :: "error + 'n spotify_api \<Rightarrow> search_args \<Rightarrow> tool_result eff" where
  "searchSpotify client args =
     try_catch
       (await (handleSpotifyRequest client (\<lambda>api.
                 request (Search (s_query args) [s_type args] (default_to 10 (s_limit args)))
                   (api_search api (s_query args) [s_type args] (default_to 10 (s_limit args)))))
          (\<lambda>results.
             let formattedResults = searchSpotify_results (s_type args) results
             in done_with (text_result
                  (if length formattedResults > 0
                   then ''# Search results for '' @ dq @ s_query args @ dq @ '' (type: '' @
                        type_str (s_type args) @ '')'' @ newline @ newline @ formattedResults
                   else ''No '' @ type_str (s_type args) @ '' results found for '' @ dq @
                        s_query args @ dq))))
       (\<lambda>e. text_result
          (''Error searching for '' @ type_str (s_type args) @ ''s: '' @ message e))"

record playlist_tracks_args =
  pt_playlistId :: string
  pt_limit :: "nat option"
  pt_offset :: "nat option"

definition getPlaylistTracks_line :: "nat \<Rightarrow> item_obj option \<Rightarrow> nat \<Rightarrow> string" where
  "getPlaylistTracks_line offset item i =
     (case item of
        None \<Rightarrow> show_nat (offset + i + 1) @ ''. [Removed track]''
      | Some track \<Rightarrow>
          if isTrack_read (Some track)
          then show_nat (offset + i + 1) @ ''. '' @ dq @ it_name track @ dq @ '' by '' @
               item_artist_names track @ '' ('' @ formatDuration (it_duration_ms track) @
               '') - ID: '' @ it_id track
          else show_nat (offset + i + 1) @ ''. Unknown item'')"

definition getPlaylistTracks ::
  "error + 'n spotify_api \<Rightarrow> playlist_tracks_args \<Rightarrow> tool_result eff" where
  "getPlaylistTracks client args =
     (let limit = default_to 50 (pt_limit args); offset = default_to 0 (pt_offset args)
      in await (handleSpotifyRequest client (\<lambda>api.
                  request (GetPlaylistItems (pt_playlistId args) limit offset)
                    (api_getPlaylistItems api (pt_playlistId args) limit offset)))
           (\<lambda>playlistTracks.
              if length (items playlistTracks) = 0
              then done_with (text_result (''This playlist doesn'' @ [CHR 0x27] @ ''t have any tracks''))
              else done_with (text_result
                     (''# Tracks in Playlist ('' @ show_nat (offset + 1) @ ''-'' @
                      show_nat (offset + length (items playlistTracks)) @ '' of '' @
                      show_nat (total playlistTracks) @ '')'' @ newline @ newline @
                      join newline (map_index (getPlaylistTracks_line offset)
                        (items playlistTracks))))))"

record saved_tracks_args =
  st_limit :: "nat option"
  st_offset :: "nat option"

text \<open>
  \<open>new Date(s).toLocaleDateString()\<close> depends on the locale of the process; it is the
  parameter \<open>toLocaleDateString\<close>.
\<close>

definition getUsersSavedTracks_line ::
  "(string \<Rightarrow> string) \<Rightarrow> nat \<Rightarrow> saved_item \<Rightarrow> nat \<Rightarrow> string" where
  "getUsersSavedTracks_line toLocaleDateString offset item i =
     (case sv_track item of
        None \<Rightarrow> show_nat (i + 1) @ ''. [Removed track]''
      | Some track \<Rightarrow>
          if isTrack_read (Some track)
          then show_nat (offset + i + 1) @ ''. '' @ dq @ it_name track @ dq @ '' by '' @
               item_artist_names track @ '' ('' @ formatDuration (it_duration_ms track) @
               '') - ID: '' @ it_id track @ '' - Added: '' @
               toLocaleDateString (sv_added_at item)
          else show_nat (i + 1) @ ''. Unknown item'')"

definition getUsersSavedTracks ::
  "(string \<Rightarrow> string) \<Rightarrow> error + 'n spotify_api \<Rightarrow> saved_tracks_args \<Rightarrow> tool_result eff" where
  "getUsersSavedTracks toLocaleDateString client args =
     (let limit = default_to 50 (st_limit args); offset = default_to 0 (st_offset args)
      in await (handleSpotifyRequest client (\<lambda>api.
                  request (SavedTracks limit offset) (api_savedTracks api limit offset)))
           (\<lambda>savedTracks.
              if length (items savedTracks) = 0
              then done_with (text_result
                     (''You don'' @ [CHR 0x27] @ ''t have any saved tracks in your Liked Songs''))
              else done_with (text_result
                     (''# Your Liked Songs ('' @ show_nat (offset + 1) @ ''-'' @
                      show_nat (offset + length (items savedTracks)) @ '' of '' @
                      show_nat (total savedTracks) @ '')'' @ newline @ newline @
                      join newline (map_index (getUsersSavedTracks_line toLocaleDateString offset)
                        (items savedTracks))))))"

definition getTrackAudioFeatures_text :: "'n number_ops \<Rightarrow> 'n audio_features \<Rightarrow> string" where
  "getTrackAudioFeatures_text ops features =
     ''# Audio Features'' @ newline @ newline @
     ''**BPM (Tempo)**: '' @ num_str ops (math_round ops (tempo features)) @ newline @
     ''**Key**: '' @ js_str (snd (keyName keyNames_read (key features))) @ '' '' @
       modeName (mode features) @ newline @
     ''**Energy**: '' @ toFixed ops (times_100 ops (energy features)) 0 @ ''%'' @ newline @
     ''**Danceability**: '' @ toFixed ops (times_100 ops (danceability features)) 0 @ ''%'' @
       newline @
     ''**Valence (Happiness)**: '' @ toFixed ops (times_100 ops (valence features)) 0 @ ''%'' @
       newline @
     ''**Acousticness**: '' @ toFixed ops (times_100 ops (acousticness features)) 0 @ ''%'' @
       newline @
     ''**Instrumentalness**: '' @ toFixed ops (times_100 ops (instrumentalness features)) 0 @
       ''%'' @ newline @
     ''**Liveness**: '' @ toFixed ops (times_100 ops (liveness features)) 0 @ ''%'' @ newline @
     ''**Speechiness**: '' @ toFixed ops (times_100 ops (speechiness features)) 0 @ ''%'' @
       newline @
     ''**Loudness**: '' @ toFixed ops (loudness features) 1 @ '' dB'' @ newline @
     ''**Time Signature**: '' @ show_int (time_signature features) @ ''/4''"

definition getTrackAudioFeatures ::
  "'n number_ops \<Rightarrow> error + 'n spotify_api \<Rightarrow> string \<Rightarrow> tool_result eff" where
  "getTrackAudioFeatures ops client trackId =
     try_catch
       (await (handleSpotifyRequest client (\<lambda>api.
                 request (AudioFeatures trackId) (api_audioFeatures api trackId)))
          (\<lambda>features_opt.
             case features_opt of
               None \<Rightarrow> done_with (text_result
                         (''No audio features found for track ID: '' @ trackId))
             | Some features \<Rightarrow>
                 done_with (text_result (getTrackAudioFeatures_text ops features))))
       (\<lambda>e. text_result (''Error getting audio features: '' @ message e))"

section \<open>Notions used to state the properties\<close>

text \<open>\<open>s.split('\n')\<close>: the lines of a text.\<close>

fun split_lines :: "string \<Rightarrow> string list" where
  "split_lines [] = [[]]"
| "split_lines (c # cs) =
     (if c = CHR 0x0A then [] # split_lines cs
      else (case split_lines cs of [] \<Rightarrow> [[c]] | l # ls \<Rightarrow> (c # l) # ls))"

text \<open>An optional string or list argument that is absent or empty.\<close>

definition missing :: "'a list option \<Rightarrow> bool" where
  "missing v = (v = None \<or> v = Some [])"

text \<open>\<open>ids?.[0]\<close>: the first element of an optional list, if there is one.\<close>

definition first_of :: "'a list option \<Rightarrow> 'a option" where
  "first_of v = (case v of Some (x # _) \<Rightarrow> Some x | _ \<Rightarrow> None)"

text \<open>How many results of the requested type a search answer holds.\<close>

definition result_count :: "item_type \<Rightarrow> search_results \<Rightarrow> nat" where
  "result_count ty results =
     (case ty of
        Track \<Rightarrow> (case sr_tracks results of None \<Rightarrow> 0 | Some its \<Rightarrow> length its)
      | Album \<Rightarrow> (case sr_albums results of None \<Rightarrow> 0 | Some its \<Rightarrow> length its)
      | Artist \<Rightarrow> (case sr_artists results of None \<Rightarrow> 0 | Some its \<Rightarrow> length its)
      | Playlist \<Rightarrow> (case sr_playlists results of None \<Rightarrow> 0 | Some its \<Rightarrow> length its))"

text \<open>
  Reading a decimal number back: the characters that are digits, the value of a digit,
  and the number a string of digits stands for.
\<close>

definition is_digit :: "char \<Rightarrow> bool" where
  "is_digit c = (c \<in> set ''0123456789'')"

definition digit_val :: "char \<Rightarrow> nat" where
  "digit_val c = of_char c - 48"

fun read_nat :: "nat \<Rightarrow> string \<Rightarrow> nat" where
  "read_nat acc [] = acc"
| "read_nat acc (c # cs) = read_nat (10 * acc + digit_val c) cs"

text \<open>
  The range of a page and the total as a header shows them: first position, a hyphen,
  last position, \<open>of\<close>, total.
\<close>

definition range_text :: "nat \<Rightarrow> nat \<Rightarrow> nat \<Rightarrow> string" where
  "range_text offset n tot =
     show_nat (offset + 1) @ ''-'' @ show_nat (offset + n) @ '' of '' @ show_nat tot"

text \<open>
  The argument records that fail the required-field check of their operation: the
  operations without such a check have none.
\<close>

definition library_missing_required :: "library_args \<Rightarrow> bool" where
  "library_missing_required args =
     (case l_operation args of
        L_search \<Rightarrow> missing (l_query args) \<or> l_type args = None
      | L_playlist_tracks \<Rightarrow> missing (l_playlist_id args)
      | L_albums \<Rightarrow> missing (l_album_ids args)
      | L_album_tracks \<Rightarrow> missing (first_of (l_album_ids args))
      | L_save_album \<Rightarrow> missing (l_album_ids args)
      | L_remove_album \<Rightarrow> missing (l_album_ids args)
      | L_check_saved \<Rightarrow> missing (l_album_ids args)
      | _ \<Rightarrow> False)"

definition playback_missing_required :: "playback_args \<Rightarrow> bool" where
  "playback_missing_required args =
     (case p_operation args of
        P_play \<Rightarrow> missing (p_uri args) \<and> (p_type args = None \<or> missing (p_id args))
      | P_queue \<Rightarrow> missing (p_uri args) \<and> (p_type args = None \<or> missing (p_id args))
      | P_create_playlist \<Rightarrow> missing (p_name args)
      | P_add_to_playlist \<Rightarrow> missing (p_playlist_id args) \<or> missing (p_track_ids args)
      | _ \<Rightarrow> False)"

definition info_missing_required :: "info_args \<Rightarrow> bool" where
  "info_missing_required args =
     (case i_operation args of
        I_audio_features \<Rightarrow> missing (i_track_id args)
      | _ \<Rightarrow> False)"

text \<open>
  A client for the examples. It finds nothing in a search, has a playlist page of three
  removed entries out of 40, a page of one removed saved entry out of 9, reports exactly
  the album \<open>a\<close> as saved, and plays nothing.
\<close>

definition sample_api :: "unit spotify_api" where
  "sample_api =
     \<lparr>api_search = (\<lambda>query types limit.
        Inr \<lparr>sr_tracks = Some [], sr_albums = Some [], sr_artists = Some [],
             sr_playlists = Some []\<rparr>),
      api_playlists = (\<lambda>limit. Inr \<lparr>items = [], total = 0\<rparr>),
      api_getPlaylistItems = (\<lambda>playlist_id limit offset.
        Inr \<lparr>items = [None, None, None], total = 40\<rparr>),
      api_savedTracks = (\<lambda>limit offset.
        Inr \<lparr>items = [\<lparr>sv_track = None, sv_added_at = ''2024-01-01''\<rparr>], total = 9\<rparr>),
      api_getRecentlyPlayedTracks = (\<lambda>limit. Inr \<lparr>items = [], total = 0\<rparr>),
      api_albums_get = (\<lambda>ids. Inr []),
      api_albums_tracks = (\<lambda>album_id limit offset. Inr \<lparr>items = [], total = 0\<rparr>),
      api_saveAlbums = (\<lambda>ids. Inr ()),
      api_removeSavedAlbums = (\<lambda>ids. Inr ()),
      api_hasSavedAlbums = (\<lambda>ids. Inr (map (\<lambda>id. id = ''a'') ids)),
      api_startResumePlayback = (\<lambda>device context uris. Inr ()),
      api_pausePlayback = (\<lambda>device. Inr ()),
      api_skipToNext = (\<lambda>device. Inr ()),
      api_skipToPrevious = (\<lambda>device. Inr ()),
      api_addItemToPlaybackQueue = (\<lambda>uri device. Inr ()),
      api_profile = Inr ''me'',
      api_createPlaylist = (\<lambda>user name description public. Inr ''new''),
      api_addItemsToPlaylist = (\<lambda>playlist_id uris position. Inr ()),
      api_getCurrentlyPlayingTrack = Inr None,
      api_audioFeatures = (\<lambda>track_id. Inr None),
      api_getUsersQueue = Inr None\<rparr>"

text \<open>
  Number operations for the examples, over a type with one value, which prints as 0.
\<close>

definition sample_ops :: "unit number_ops" where
  "sample_ops =
     \<lparr>num_truthy = (\<lambda>x. False), math_round = (\<lambda>x. x), times_100 = (\<lambda>x. x),
      toFixed = (\<lambda>x digits. if digits = 0 then ''0'' else ''0.'' @ replicate digits (CHR ''0'')),
      num_str = (\<lambda>x. ''0'')\<rparr>"

text \<open>The same client with empty pages of playlist entries and of saved entries.\<close>

definition empty_pages_api :: "unit spotify_api" where
  "empty_pages_api =
     sample_api
       \<lparr>api_getPlaylistItems := (\<lambda>playlist_id limit offset. Inr \<lparr>items = [], total = 0\<rparr>),
        api_savedTracks := (\<lambda>limit offset. Inr \<lparr>items = [], total = 0\<rparr>)\<rparr>"

text \<open>Argument records with every optional field absent.\<close>

definition library_only :: "library_op \<Rightarrow> library_args" where
  "library_only op =
     \<lparr>l_operation = op, l_query = None, l_type = None, l_playlist_id = None,
      l_album_ids = None, l_limit = None, l_offset = None\<rparr>"

definition playback_only :: "playback_op \<Rightarrow> playback_args" where
  "playback_only op =
     \<lparr>p_operation = op, p_uri = None, p_type = None, p_id = None, p_device_id = None,
      p_name = None, p_description = None, p_public = None, p_playlist_id = None,
      p_track_ids = None, p_position = None\<rparr>"

definition info_only :: "info_op \<Rightarrow> info_args" where
  "info_only op = \<lparr>i_operation = op, i_track_id = None, i_limit = None\<rparr>"

section \<open>Facts about the rendering of numbers\<close>

lemma digit_char_values:
  "digit_char 0 = CHR ''0''" "digit_char 1 = CHR ''1''" "digit_char 2 = CHR ''2''"
  "digit_char 3 = CHR ''3''" "digit_char 4 = CHR ''4''" "digit_char 5 = CHR ''5''"
  "digit_char 6 = CHR ''6''" "digit_char 7 = CHR ''7''" "digit_char 8 = CHR ''8''"
  "digit_char 9 = CHR ''9''" "digit_char (Suc 0) = CHR ''1''"
  by (simp_all add: digit_char_def)

lemma show_nat_small: "n < 10 \<Longrightarrow> show_nat n = [digit_char n]"
  by (simp add: show_nat.simps)

lemma show_nat_two:
  "10 \<le> n \<Longrightarrow> n < 100 \<Longrightarrow> show_nat n = [digit_char (n div 10), digit_char (n mod 10)]"
  by (subst show_nat.simps) (simp add: show_nat_small)

lemma show_nat_numeral:
  "show_nat (numeral k) =
     (if (numeral k :: nat) < 10 then [digit_char (numeral k)]
      else show_nat (numeral k div 10) @ [digit_char (numeral k mod 10)])"
  by (rule show_nat.simps)

lemma show_nat_0: "show_nat 0 = ''0''"
  by (simp add: show_nat_small digit_char_values)

lemma show_nat_Suc0: "show_nat (Suc 0) = ''1''"
  by (simp add: show_nat_small digit_char_values)

lemmas show_nat_eval = show_nat_numeral show_nat_0 show_nat_Suc0 digit_char_values

lemma show_nat_not_empty: "show_nat n \<noteq> []"
  by (subst show_nat.simps) simp

lemma padStart2_show_nat:
  assumes "s < 100"
  shows "padStart2 (show_nat s) = [digit_char (s div 10), digit_char (s mod 10)]"
proof (cases "s < 10")
  case True
  then show ?thesis by (simp add: padStart2_def show_nat_small digit_char_values)
next
  case False
  with assms show ?thesis by (simp add: padStart2_def show_nat_two)
qed

lemma digit_cases: "d < 10 \<Longrightarrow> d \<in> {0, 1, 2, 3, 4, 5, 6, 7, 8, 9 :: nat}"
  by (simp only: insert_iff empty_iff) arith

lemma digit_val_digit_char: "d < 10 \<Longrightarrow> digit_val (digit_char d) = d"
  using digit_cases [of d] by (auto simp: digit_val_def digit_char_values)

lemma is_digit_digit_char: "d < 10 \<Longrightarrow> is_digit (digit_char d)"
  using digit_cases [of d] by (auto simp: is_digit_def digit_char_values)

lemma read_nat_append: "read_nat acc (xs @ ys) = read_nat (read_nat acc xs) ys"
  by (induction xs arbitrary: acc) auto

lemma read_nat_show_nat: "read_nat 0 (show_nat n) = n"
proof (induction n rule: show_nat.induct)
  case (1 n)
  show ?case
  proof (cases "n < 10")
    case True
    then show ?thesis by (simp add: show_nat_small digit_val_digit_char)
  next
    case False
    then have "show_nat n = show_nat (n div 10) @ [digit_char (n mod 10)]"
      by (subst show_nat.simps) simp
    with False "1.IH" show ?thesis
      by (simp add: read_nat_append digit_val_digit_char)
  qed
qed

lemma show_nat_inject: "show_nat a = show_nat b \<Longrightarrow> a = b"
  by (metis read_nat_show_nat)

lemma show_nat_digits: "\<forall>c\<in>set (show_nat n). is_digit c"
proof (induction n rule: show_nat.induct)
  case (1 n)
  show ?case
  proof (cases "n < 10")
    case True
    then show ?thesis by (simp add: show_nat_small is_digit_digit_char)
  next
    case False
    then have "show_nat n = show_nat (n div 10) @ [digit_char (n mod 10)]"
      by (subst show_nat.simps) simp
    with False "1.IH" show ?thesis
      by (auto simp: is_digit_digit_char)
  qed
qed

lemma split_at_first:
  "c \<notin> set xs \<Longrightarrow> c \<notin> set xs' \<Longrightarrow> xs @ c # ys = xs' @ c # ys' \<Longrightarrow> xs = xs' \<and> ys = ys'"
proof (induction xs arbitrary: xs')
  case Nil
  then show ?case by (cases xs') auto
next
  case (Cons x xs)
  then show ?case by (cases xs') auto
qed

lemma digit_not_sep: "is_digit c \<Longrightarrow> c \<noteq> CHR ''-'' \<and> c \<noteq> CHR '' ''"
  by (auto simp: is_digit_def)

lemma show_nat_no_sep:
  "CHR ''-'' \<notin> set (show_nat n)" "CHR '' '' \<notin> set (show_nat n)"
  using show_nat_digits [of n] digit_not_sep by blast+

lemma range_text_inject:
  assumes "range_text a n t = range_text a' n' t'"
  shows "a = a' \<and> n = n' \<and> t = t'"
proof -
  from assms have
    "show_nat (a + 1) @ CHR ''-'' # (show_nat (a + n) @ '' of '' @ show_nat t) =
     show_nat (a' + 1) @ CHR ''-'' # (show_nat (a' + n') @ '' of '' @ show_nat t')"
    by (simp add: range_text_def)
  from split_at_first [OF show_nat_no_sep(1) show_nat_no_sep(1) this]
  have 1: "show_nat (a + 1) = show_nat (a' + 1)"
    and r: "show_nat (a + n) @ '' of '' @ show_nat t = show_nat (a' + n') @ '' of '' @ show_nat t'"
    by blast+
  from r have "show_nat (a + n) @ CHR '' '' # (''of '' @ show_nat t) =
     show_nat (a' + n') @ CHR '' '' # (''of '' @ show_nat t')" by simp
  from split_at_first [OF show_nat_no_sep(2) show_nat_no_sep(2) this]
  have 2: "show_nat (a + n) = show_nat (a' + n')" and 3: "show_nat t = show_nat t'"
    by auto
  from 1 have "a = a'" by (auto dest: show_nat_inject)
  moreover from 2 have "a + n = a' + n'" by (rule show_nat_inject)
  moreover from 3 have "t = t'" by (rule show_nat_inject)
  ultimately show ?thesis by simp
qed

section \<open>The duration formatter\<close>

text \<open>
  Claim C9. For every duration \<open>d\<close> in milliseconds (a natural number, so never negative)
  the formatter returns the minutes \<open>d div 60000\<close> in decimal, a colon, and exactly two
  digits: the tens and the units of the whole seconds that remain, which are below 60.
  The duration 65000 is rendered \<open>1:05\<close>.
\<close>

theorem formatDuration_minutes_seconds:
  "formatDuration d =
     show_nat (d div 60000) @ '':'' @
       [digit_char (((d mod 60000) div 1000) div 10),
        digit_char (((d mod 60000) div 1000) mod 10)]
   \<and> (d mod 60000) div 1000 < 60
   \<and> formatDuration 65000 = ''1:05''"
proof -
  have s: "(d mod 60000) div 1000 < 60" by simp
  then have "(d mod 60000) div 1000 < 100" by linarith
  then have p: "padStart2 (show_nat ((d mod 60000) div 1000)) =
      [digit_char (((d mod 60000) div 1000) div 10),
       digit_char (((d mod 60000) div 1000) mod 10)]"
    by (rule padStart2_show_nat)
  have e: "formatDuration 65000 = ''1:05''"
    by (simp add: formatDuration_def padStart2_def show_nat_small digit_char_values)
  show ?thesis using s p e by (simp add: formatDuration_def Let_def)
qed

section \<open>Facts about the effects and the text helpers\<close>

lemmas eff_defs =
  await_def request_def done_with_def handleSpotifyRequest_def calls_def outcome_def
  try_catch_def

lemma text_result_eq [simp]: "text_result a = text_result b \<longleftrightarrow> a = b"
  by (simp add: text_result_def)

lemma length_map_index [simp]: "length (map_index f xs) = length xs"
  by (simp add: map_index_def)

lemma nth_map_index [simp]: "i < length xs \<Longrightarrow> map_index f xs ! i = f (xs ! i) i"
  by (simp add: map_index_def)

lemma map_index_Nil [simp]: "map_index f [] = []"
  by (simp add: map_index_def)

lemma split_lines_not_empty: "split_lines s \<noteq> []"
  by (induction s) (auto split: list.splits)

lemma split_lines_single: "CHR 0x0A \<notin> set l \<Longrightarrow> split_lines l = [l]"
  by (induction l) auto

lemma split_lines_append:
  "CHR 0x0A \<notin> set l \<Longrightarrow> split_lines (l @ newline @ rest) = l # split_lines rest"
  by (induction l) (auto simp: newline_def)

lemma split_lines_join:
  "ls \<noteq> [] \<Longrightarrow> \<forall>l\<in>set ls. CHR 0x0A \<notin> set l \<Longrightarrow> split_lines (join newline ls) = ls"
proof (induction newline ls rule: join.induct)
  case 1
  then show ?case by simp
next
  case (2 x)
  then show ?case by (simp add: split_lines_single)
next
  case (3 x y ys)
  then show ?case by (simp add: split_lines_append)
qed

lemma saved_word_cases:
  "saved_word saved i = (if i < length saved \<and> saved ! i then ''saved'' else ''not saved'')"
  by (simp add: saved_word_def js_index_def split: option.splits bool.splits)

lemma read_key_line:
  "\<exists>pre post. getTrackAudioFeatures_text ops f =
     pre @ ''**Key**: '' @ js_str (snd (keyName keyNames_read (key f))) @ '' '' @
     modeName (mode f) @ post"
proof (intro exI)
  show "getTrackAudioFeatures_text ops f =
     (''# Audio Features'' @ newline @ newline @
      ''**BPM (Tempo)**: '' @ num_str ops (math_round ops (tempo f)) @ newline) @
     ''**Key**: '' @ js_str (snd (keyName keyNames_read (key f))) @ '' '' @
     modeName (mode f) @
     (newline @
     ''**Energy**: '' @ toFixed ops (times_100 ops (energy f)) 0 @ ''%'' @ newline @
     ''**Danceability**: '' @ toFixed ops (times_100 ops (danceability f)) 0 @ ''%'' @
       newline @
     ''**Valence (Happiness)**: '' @ toFixed ops (times_100 ops (valence f)) 0 @ ''%'' @
       newline @
     ''**Acousticness**: '' @ toFixed ops (times_100 ops (acousticness f)) 0 @ ''%'' @
       newline @
     ''**Instrumentalness**: '' @ toFixed ops (times_100 ops (instrumentalness f)) 0 @
       ''%'' @ newline @
     ''**Liveness**: '' @ toFixed ops (times_100 ops (liveness f)) 0 @ ''%'' @ newline @
     ''**Speechiness**: '' @ toFixed ops (times_100 ops (speechiness f)) 0 @ ''%'' @
       newline @
     ''**Loudness**: '' @ toFixed ops (loudness f) 1 @ '' dB'' @ newline @
     ''**Time Signature**: '' @ show_int (time_signature f) @ ''/4'')"
    by (simp add: getTrackAudioFeatures_text_def)
qed

lemma info_key_line:
  "\<exists>pre post. info_audio_features_text ops f =
     pre @ ''**Key**: '' @ js_str (snd (keyName keyNames_info (key f))) @ '' '' @
     modeName (mode f) @ post"
proof (intro exI)
  show "info_audio_features_text ops f =
     (''**BPM**: '' @ num_str ops (math_round ops (tempo f)) @ newline) @
     ''**Key**: '' @ js_str (snd (keyName keyNames_info (key f))) @ '' '' @
     modeName (mode f) @
     (newline @ join newline
       [''**Energy**: '' @ toFixed ops (times_100 ops (energy f)) 0 @ ''%'',
        ''**Danceability**: '' @ toFixed ops (times_100 ops (danceability f)) 0 @ ''%'',
        ''**Valence**: '' @ toFixed ops (times_100 ops (valence f)) 0 @ ''%'',
        ''**Acousticness**: '' @ toFixed ops (times_100 ops (acousticness f)) 0 @ ''%'',
        ''**Instrumentalness**: '' @
          toFixed ops (times_100 ops (instrumentalness f)) 0 @ ''%'',
        ''**Loudness**: '' @ toFixed ops (loudness f) 1 @ '' dB'',
        ''**Time Sig**: '' @ show_int (time_signature f) @ ''/4''])"
    by (simp add: info_audio_features_text_def)
qed

lemma searchSpotify_results_empty:
  "result_count ty results = 0 \<Longrightarrow> searchSpotify_results ty results = []"
  by (cases ty) (auto simp: result_count_def searchSpotify_results_def split: option.splits)

lemma library_search_text_empty:
  "result_count ty results = 0 \<Longrightarrow> library_search_text ty results = []"
  by (cases ty) (auto simp: result_count_def library_search_text_def split: option.splits)

section \<open>Key names\<close>

text \<open>
  Claim C1, as amended. For every key \<open>k\<close> from \<open>-1\<close> to \<open>11\<close> both audio-features
  operations render \<open>Unknown\<close> when \<open>k = -1\<close> and never read their table at \<open>-1\<close>.
  Otherwise \<open>getTrackAudioFeatures\<close> of \<open>read.ts\<close> renders the \<open>k\<close>-th entry of the
  table with both spellings of the black keys, and the \<open>audio_features\<close> operation of
  \<open>info.ts\<close> renders the \<open>k\<close>-th entry of its own table, which spells them with the
  sharp only. In both, 0 renders \<open>C\<close> and 11 renders \<open>B\<close>, and the rendered name is what
  the key line of the reply holds.
\<close>

theorem keyName_of_both_tables:
  assumes "k \<in> {- 1..11}"
  shows
    "snd (keyName keyNames_read k) =
       Some (if k = - 1 then ''Unknown''
             else [''C'', ''C'' @ sharp_sign @ ''/D'' @ flat_sign, ''D'',
                   ''D'' @ sharp_sign @ ''/E'' @ flat_sign, ''E'', ''F'',
                   ''F'' @ sharp_sign @ ''/G'' @ flat_sign, ''G'',
                   ''G'' @ sharp_sign @ ''/A'' @ flat_sign, ''A'',
                   ''A'' @ sharp_sign @ ''/B'' @ flat_sign, ''B''] ! nat k)
     \<and> snd (keyName keyNames_info k) =
       Some (if k = - 1 then ''Unknown''
             else [''C'', ''C'' @ sharp_sign, ''D'', ''D'' @ sharp_sign, ''E'', ''F'',
                   ''F'' @ sharp_sign, ''G'', ''G'' @ sharp_sign, ''A'', ''A'' @ sharp_sign,
                   ''B''] ! nat k)
     \<and> - 1 \<notin> set (fst (keyName keyNames_read k))
     \<and> - 1 \<notin> set (fst (keyName keyNames_info k))
     \<and> snd (keyName keyNames_read 0) = Some ''C'' \<and> snd (keyName keyNames_read 11) = Some ''B''
     \<and> snd (keyName keyNames_info 0) = Some ''C'' \<and> snd (keyName keyNames_info 11) = Some ''B''
     \<and> (\<forall>(ops :: 'n number_ops) (f :: 'n audio_features). key f = k \<longrightarrow>
          (\<exists>pre post. getTrackAudioFeatures_text ops f =
             pre @ ''**Key**: '' @ (if k = - 1 then ''Unknown'' else keyNames_read ! nat k) @
             '' '' @ modeName (mode f) @ post))
     \<and> (\<forall>(ops :: 'n number_ops) (f :: 'n audio_features). key f = k \<longrightarrow>
          (\<exists>pre post. info_audio_features_text ops f =
             pre @ ''**Key**: '' @ (if k = - 1 then ''Unknown'' else keyNames_info ! nat k) @
             '' '' @ modeName (mode f) @ post))"
proof -
  have len: "length keyNames_read = 12" "length keyNames_info = 12"
    by (simp_all add: keyNames_read_def keyNames_info_def)
  from assms have inr: "k \<noteq> - 1 \<Longrightarrow> 0 \<le> k \<and> nat k < 12" by auto
  have r: "snd (keyName keyNames_read k) = Some (if k = - 1 then ''Unknown'' else keyNames_read ! nat k)"
    using inr by (simp add: keyName_def js_index_def len)
  have i: "snd (keyName keyNames_info k) = Some (if k = - 1 then ''Unknown'' else keyNames_info ! nat k)"
    using inr by (simp add: keyName_def js_index_def len)
  have t: "- 1 \<notin> set (fst (keyName keyNames_read k))" "- 1 \<notin> set (fst (keyName keyNames_info k))"
    by (simp_all add: keyName_def)
  have e: "snd (keyName keyNames_read 0) = Some ''C''" "snd (keyName keyNames_read 11) = Some ''B''"
    "snd (keyName keyNames_info 0) = Some ''C''" "snd (keyName keyNames_info 11) = Some ''B''"
    by (simp_all add: keyName_def js_index_def keyNames_read_def keyNames_info_def)
  have kr: "\<forall>(ops :: 'n number_ops) (f :: 'n audio_features). key f = k \<longrightarrow>
          (\<exists>pre post. getTrackAudioFeatures_text ops f =
             pre @ ''**Key**: '' @ (if k = - 1 then ''Unknown'' else keyNames_read ! nat k) @
             '' '' @ modeName (mode f) @ post)"
  proof (intro allI impI)
    fix ops :: "'n number_ops" and f :: "'n audio_features"
    assume "key f = k"
    with r have "js_str (snd (keyName keyNames_read (key f))) =
        (if k = - 1 then ''Unknown'' else keyNames_read ! nat k)"
      by (simp add: js_str_def)
    with read_key_line [of ops f]
    show "\<exists>pre post. getTrackAudioFeatures_text ops f =
             pre @ ''**Key**: '' @ (if k = - 1 then ''Unknown'' else keyNames_read ! nat k) @
             '' '' @ modeName (mode f) @ post"
      by simp
  qed
  have ki: "\<forall>(ops :: 'n number_ops) (f :: 'n audio_features). key f = k \<longrightarrow>
          (\<exists>pre post. info_audio_features_text ops f =
             pre @ ''**Key**: '' @ (if k = - 1 then ''Unknown'' else keyNames_info ! nat k) @
             '' '' @ modeName (mode f) @ post)"
  proof (intro allI impI)
    fix ops :: "'n number_ops" and f :: "'n audio_features"
    assume "key f = k"
    with i have "js_str (snd (keyName keyNames_info (key f))) =
        (if k = - 1 then ''Unknown'' else keyNames_info ! nat k)"
      by (simp add: js_str_def)
    with info_key_line [of ops f]
    show "\<exists>pre post. info_audio_features_text ops f =
             pre @ ''**Key**: '' @ (if k = - 1 then ''Unknown'' else keyNames_info ! nat k) @
             '' '' @ modeName (mode f) @ post"
      by simp
  qed
  have main: "snd (keyName keyNames_read k) =
       Some (if k = - 1 then ''Unknown''
             else [''C'', ''C'' @ sharp_sign @ ''/D'' @ flat_sign, ''D'',
                   ''D'' @ sharp_sign @ ''/E'' @ flat_sign, ''E'', ''F'',
                   ''F'' @ sharp_sign @ ''/G'' @ flat_sign, ''G'',
                   ''G'' @ sharp_sign @ ''/A'' @ flat_sign, ''A'',
                   ''A'' @ sharp_sign @ ''/B'' @ flat_sign, ''B''] ! nat k)
     \<and> snd (keyName keyNames_info k) =
       Some (if k = - 1 then ''Unknown''
             else [''C'', ''C'' @ sharp_sign, ''D'', ''D'' @ sharp_sign, ''E'', ''F'',
                   ''F'' @ sharp_sign, ''G'', ''G'' @ sharp_sign, ''A'', ''A'' @ sharp_sign,
                   ''B''] ! nat k)"
    using r i by (simp add: keyNames_read_def keyNames_info_def)
  from main t e kr ki show ?thesis by blast
qed

text \<open>The key 1 satisfies the hypothesis; the two operations name it differently.\<close>

theorem keyName_of_both_tables_witness:
  "(1::int) \<in> {- 1..11}
   \<and> snd (keyName keyNames_read 1) = Some (''C'' @ sharp_sign @ ''/D'' @ flat_sign)
   \<and> snd (keyName keyNames_info 1) = Some (''C'' @ sharp_sign)
   \<and> fst (keyName keyNames_read 1) = [1]"
proof -
  have h: "(1::int) \<in> {- 1..11}" by simp
  from keyName_of_both_tables [OF h]
  have "snd (keyName keyNames_read 1) =
       Some (if (1::int) = - 1 then ''Unknown''
             else [''C'', ''C'' @ sharp_sign @ ''/D'' @ flat_sign, ''D'',
                   ''D'' @ sharp_sign @ ''/E'' @ flat_sign, ''E'', ''F'',
                   ''F'' @ sharp_sign @ ''/G'' @ flat_sign, ''G'',
                   ''G'' @ sharp_sign @ ''/A'' @ flat_sign, ''A'',
                   ''A'' @ sharp_sign @ ''/B'' @ flat_sign, ''B''] ! nat 1)"
    and "snd (keyName keyNames_info 1) =
       Some (if (1::int) = - 1 then ''Unknown''
             else [''C'', ''C'' @ sharp_sign, ''D'', ''D'' @ sharp_sign, ''E'', ''F'',
                   ''F'' @ sharp_sign, ''G'', ''G'' @ sharp_sign, ''A'', ''A'' @ sharp_sign,
                   ''B''] ! nat 1)"
    by blast+
  then show ?thesis using h by (simp add: keyName_def)
qed

text \<open>
  The claim as stated fails for \<open>info.ts\<close>: at key 1 its operation does not render the
  entry of the table with both spellings.
\<close>

theorem keyName_info_counterexample:
  "snd (keyName keyNames_info 1) \<noteq> Some (''C'' @ sharp_sign @ ''/D'' @ flat_sign)"
  by (simp add: keyName_def js_index_def keyNames_info_def sharp_sign_def)

section \<open>Album lists\<close>

text \<open>
  Claim C2, as amended. For every non-empty \<open>album_ids\<close> list given to the operations
  \<open>albums\<close>, \<open>save_album\<close>, \<open>remove_album\<close> and \<open>check_saved\<close> of the library tool,
  the handler sends exactly one request, and the list it passes is the first 20 elements
  of the input in input order: a list of more than 20 elements is cut to its first 20,
  a list of at most 20 elements is passed unchanged. An empty or absent list is answered
  with an error text, and nothing is passed.
\<close>

theorem album_ids_first_twenty:
  "(l_album_ids args = Some ids \<and> ids \<noteq> [] \<longrightarrow>
      (l_operation args = L_albums \<longrightarrow>
         calls (spotifyLibrary (Inr api) args) = [AlbumsGet (take 20 ids)])
      \<and> (l_operation args = L_save_album \<longrightarrow>
         calls (spotifyLibrary (Inr api) args) = [SaveAlbums (take 20 ids)])
      \<and> (l_operation args = L_remove_album \<longrightarrow>
         calls (spotifyLibrary (Inr api) args) = [RemoveSavedAlbums (take 20 ids)])
      \<and> (l_operation args = L_check_saved \<longrightarrow>
         calls (spotifyLibrary (Inr api) args) = [HasSavedAlbums (take 20 ids)])
      \<and> (20 < length ids \<longrightarrow>
         length (take 20 ids) = 20 \<and> (\<forall>i<20. take 20 ids ! i = ids ! i))
      \<and> (length ids \<le> 20 \<longrightarrow> take 20 ids = ids))
   \<and> (missing (l_album_ids args) \<and>
       l_operation args \<in> {L_albums, L_save_album, L_remove_album, L_check_saved} \<longrightarrow>
      spotifyLibrary client args = ([], Inr (text_result ''Error: album_ids required'')))"
proof -
  have a: "l_album_ids args = Some ids \<Longrightarrow> ids \<noteq> [] \<Longrightarrow> l_operation args = L_albums \<Longrightarrow>
      calls (spotifyLibrary (Inr api) args) = [AlbumsGet (take 20 ids)]"
    by (simp add: spotifyLibrary_def library_albums_def eff_defs split: sum.splits)
  have s: "l_album_ids args = Some ids \<Longrightarrow> ids \<noteq> [] \<Longrightarrow> l_operation args = L_save_album \<Longrightarrow>
      calls (spotifyLibrary (Inr api) args) = [SaveAlbums (take 20 ids)]"
    by (simp add: spotifyLibrary_def library_save_album_def eff_defs split: sum.splits)
  have r: "l_album_ids args = Some ids \<Longrightarrow> ids \<noteq> [] \<Longrightarrow> l_operation args = L_remove_album \<Longrightarrow>
      calls (spotifyLibrary (Inr api) args) = [RemoveSavedAlbums (take 20 ids)]"
    by (simp add: spotifyLibrary_def library_remove_album_def eff_defs split: sum.splits)
  have c: "l_album_ids args = Some ids \<Longrightarrow> ids \<noteq> [] \<Longrightarrow> l_operation args = L_check_saved \<Longrightarrow>
      calls (spotifyLibrary (Inr api) args) = [HasSavedAlbums (take 20 ids)]"
    by (simp add: spotifyLibrary_def library_check_saved_def eff_defs split: sum.splits)
  have t: "20 < length ids \<Longrightarrow> length (take 20 ids) = 20 \<and> (\<forall>i<20. take 20 ids ! i = ids ! i)"
    by simp
  have u: "length ids \<le> 20 \<Longrightarrow> take 20 ids = ids" by simp
  have e: "missing (l_album_ids args) \<Longrightarrow>
       l_operation args \<in> {L_albums, L_save_album, L_remove_album, L_check_saved} \<Longrightarrow>
      spotifyLibrary client args = ([], Inr (text_result ''Error: album_ids required''))"
    by (auto simp: missing_def spotifyLibrary_def library_albums_def library_save_album_def
        library_remove_album_def library_check_saved_def done_with_def)
  from a s r c t u e show ?thesis by blast
qed

text \<open>
  The claim as stated fails at the empty list, which has at most 20 elements and is not
  passed on: the handler answers with an error text and sends nothing.
\<close>

theorem albums_empty_list_counterexample:
  "spotifyLibrary (Inr sample_api) ((library_only L_albums)\<lparr>l_album_ids := Some []\<rparr>) =
     ([], Inr (text_result ''Error: album_ids required''))"
  by (simp add: spotifyLibrary_def library_albums_def library_only_def eff_defs)

text \<open>A list of 22 identifiers: the request carries the first 20.\<close>

theorem album_ids_first_twenty_witness:
  "replicate 21 ''x'' @ [''y''] \<noteq> []
   \<and> calls (spotifyLibrary (Inr sample_api)
        ((library_only L_save_album)\<lparr>l_album_ids := Some (replicate 21 ''x'' @ [''y''])\<rparr>))
     = [SaveAlbums (replicate 20 ''x'')]
   \<and> calls (spotifyLibrary (Inr sample_api)
        ((library_only L_check_saved)\<lparr>l_album_ids := Some [''a'', ''b'']\<rparr>))
     = [HasSavedAlbums [''a'', ''b'']]"
proof -
  let ?long = "replicate 21 ''x'' @ [''y'']"
  let ?a = "(library_only L_save_album)\<lparr>l_album_ids := Some ?long\<rparr>"
  let ?b = "(library_only L_check_saved)\<lparr>l_album_ids := Some [''a'', ''b'']\<rparr>"
  have ha: "l_album_ids ?a = Some ?long \<and> ?long \<noteq> []" by simp
  have oa: "l_operation ?a = L_save_album" by (simp add: library_only_def)
  have hb: "l_album_ids ?b = Some [''a'', ''b''] \<and> [''a'', ''b''] \<noteq> ([] :: string list)" by simp
  have ob: "l_operation ?b = L_check_saved" by (simp add: library_only_def)
  from album_ids_first_twenty [of ?a ?long sample_api] ha oa
  have 1: "calls (spotifyLibrary (Inr sample_api) ?a) = [SaveAlbums (take 20 ?long)]"
    by blast
  from album_ids_first_twenty [of ?b "[''a'', ''b'']" sample_api] hb ob
  have 2: "calls (spotifyLibrary (Inr sample_api) ?b) = [HasSavedAlbums (take 20 [''a'', ''b''])]"
    by blast
  from 1 2 show ?thesis by simp
qed

text \<open>
  The reply of \<open>check_saved\<close> for any non-empty list and any answer of the service: one
  entry per supplied identifier, which follows the report at its position where the
  answer has one and reads \<open>not saved\<close> where it has none.
\<close>

lemma check_saved_lines:
  assumes "l_operation args = L_check_saved"
    and "l_album_ids args = Some ids"
    and "ids \<noteq> []"
    and "api_hasSavedAlbums api (take 20 ids) = Inr saved"
  shows
    "\<exists>lines.
       outcome (spotifyLibrary (Inr api) args) = Inr (text_result (join newline lines))
       \<and> length lines = length ids
       \<and> (\<forall>i<length ids.
            (i < length saved \<and> saved ! i \<longrightarrow> lines ! i = ids ! i @ '': saved'')
            \<and> (i < length saved \<and> \<not> saved ! i \<longrightarrow> lines ! i = ids ! i @ '': not saved''))
       \<and> (\<forall>i<length ids. length saved \<le> i \<longrightarrow> lines ! i = ids ! i @ '': not saved'')
       \<and> ((\<forall>id\<in>set ids. CHR 0x0A \<notin> set id) \<longrightarrow> split_lines (join newline lines) = lines)"
proof -
  let ?lines = "map_index (\<lambda>id i. id @ '': '' @ saved_word saved i) ids"
  have o: "outcome (spotifyLibrary (Inr api) args) = Inr (text_result (join newline ?lines))"
    using assms
    by (simp add: spotifyLibrary_def library_check_saved_def eff_defs)
  have n: "length ?lines = length ids" by simp
  have f: "\<forall>i<length ids.
            (i < length saved \<and> saved ! i \<longrightarrow> ?lines ! i = ids ! i @ '': saved'')
            \<and> (i < length saved \<and> \<not> saved ! i \<longrightarrow> ?lines ! i = ids ! i @ '': not saved'')"
    by (simp add: saved_word_cases)
  have g: "\<forall>i<length ids. length saved \<le> i \<longrightarrow> ?lines ! i = ids ! i @ '': not saved''"
    by (simp add: saved_word_cases)
  have s: "(\<forall>id\<in>set ids. CHR 0x0A \<notin> set id) \<longrightarrow> split_lines (join newline ?lines) = ?lines"
  proof
    assume clean: "\<forall>id\<in>set ids. CHR 0x0A \<notin> set id"
    have "\<forall>l\<in>set ?lines. CHR 0x0A \<notin> set l"
    proof
      fix l assume "l \<in> set ?lines"
      then obtain i where i: "i < length ids" and l: "l = ?lines ! i"
        by (metis in_set_conv_nth n)
      from i clean have "CHR 0x0A \<notin> set (ids ! i)" by simp
      with i l show "CHR 0x0A \<notin> set l" by (simp add: saved_word_cases)
    qed
    moreover from assms(3) n have "?lines \<noteq> []" by (metis length_0_conv)
    ultimately show "split_lines (join newline ?lines) = ?lines" by (rule split_lines_join[rotated])
  qed
  from o n f g s show ?thesis by blast
qed

text \<open>
  Claim C3, as amended. For every non-empty \<open>album_ids\<close> list of at most 20 identifiers
  given to \<open>check_saved\<close>, when the external service answers the request, the reply is
  the lines joined by line breaks, one line per supplied identifier in input order; the
  line of an identifier is \<open><id>: saved\<close> when the service reports the album at that
  position as saved and \<open><id>: not saved\<close> when it reports it as not saved. When no
  identifier contains a line break, splitting the reply at the line breaks gives back
  exactly these lines.
\<close>

theorem check_saved_one_line_per_id:
  assumes "l_operation args = L_check_saved"
    and "l_album_ids args = Some ids"
    and "ids \<noteq> []"
    and "length ids \<le> 20"
    and "api_hasSavedAlbums api ids = Inr saved"
  shows
    "\<exists>lines.
       outcome (spotifyLibrary (Inr api) args) = Inr (text_result (join newline lines))
       \<and> length lines = length ids
       \<and> (\<forall>i<length ids.
            (i < length saved \<and> saved ! i \<longrightarrow> lines ! i = ids ! i @ '': saved'')
            \<and> (i < length saved \<and> \<not> saved ! i \<longrightarrow> lines ! i = ids ! i @ '': not saved''))
       \<and> ((\<forall>id\<in>set ids. CHR 0x0A \<notin> set id) \<longrightarrow> split_lines (join newline lines) = lines)"
proof -
  from assms(4,5) have "api_hasSavedAlbums api (take 20 ids) = Inr saved" by simp
  from check_saved_lines [OF assms(1,2,3) this] show ?thesis by blast
qed

text \<open>
  The sample client reports \<open>a\<close> as saved and \<open>b\<close> as not saved.
\<close>

theorem check_saved_one_line_per_id_witness:
  "outcome (spotifyLibrary (Inr sample_api)
      ((library_only L_check_saved)\<lparr>l_album_ids := Some [''b'', ''a'']\<rparr>))
     = Inr (text_result (''b: not saved'' @ newline @ ''a: saved''))"
proof -
  let ?args = "(library_only L_check_saved)\<lparr>l_album_ids := Some [''b'', ''a'']\<rparr>"
  have h1: "l_operation ?args = L_check_saved" by (simp add: library_only_def)
  have h2: "l_album_ids ?args = Some [''b'', ''a'']" by simp
  have h3: "[''b'', ''a''] \<noteq> ([] :: string list)" by simp
  have h4: "length [''b'', ''a''] \<le> 20" by simp
  have h5: "api_hasSavedAlbums sample_api [''b'', ''a''] = Inr [False, True]"
    by (simp add: sample_api_def)
  from check_saved_one_line_per_id [OF h1 h2 h3 h4 h5]
  obtain lines where o: "outcome (spotifyLibrary (Inr sample_api) ?args) = Inr (text_result (join newline lines))"
    and n: "length lines = length [''b'', ''a'']"
    and f: "\<forall>i<length [''b'', ''a''].
            (i < length [False, True] \<and> [False, True] ! i \<longrightarrow> lines ! i = [''b'', ''a''] ! i @ '': saved'')
            \<and> (i < length [False, True] \<and> \<not> [False, True] ! i \<longrightarrow> lines ! i = [''b'', ''a''] ! i @ '': not saved'')"
    by blast
  from n obtain x y where xy: "lines = [x, y]"
    by (cases lines; cases "tl lines"; cases "tl (tl lines)") auto
  from f [rule_format, of 0] have "lines ! 0 = ''b: not saved''" by simp
  moreover from f [rule_format, of 1] have "lines ! 1 = ''a: saved''" by simp
  ultimately show ?thesis using o xy by simp
qed

text \<open>
  The claim as stated fails at a list of 21 identifiers, here 21 times the identifier
  \<open>a\<close>: the request carries the first 20, the service reports the album \<open>a\<close> as saved
  in each of its 20 reports, and the line of the 21st identifier reads \<open>a: not saved\<close>.
\<close>

theorem check_saved_twenty_first_counterexample:
  "api_hasSavedAlbums sample_api (take 20 (replicate 21 ''a'')) = Inr (replicate 20 True)
   \<and> outcome (spotifyLibrary (Inr sample_api)
        ((library_only L_check_saved)\<lparr>l_album_ids := Some (replicate 21 ''a'')\<rparr>))
     = Inr (text_result (join newline (replicate 20 ''a: saved'' @ [''a: not saved''])))"
  by code_simp

section \<open>Search without results\<close>

text \<open>
  Claim C4, as amended. For every query and every search type, when the external service
  returns no result of that type, \<open>searchSpotify\<close> of \<open>read.ts\<close> replies
  \<open>No <type> results found for "<query>"\<close>, naming the requested type, and the \<open>search\<close>
  operation of the library tool (given a non-empty query) replies \<open>No results\<close>, which
  does not name the type. Whatever the service answers, a text that either of them
  returns is never the empty string.
\<close>

theorem search_without_results:
  assumes "result_count ty results = 0"
  shows
    "(s_query a = query \<and> s_type a = ty \<and>
      api_search api query [ty] (default_to 10 (s_limit a)) = Inr results \<longrightarrow>
        outcome (searchSpotify (Inr api) a) =
          Inr (text_result (''No '' @ type_str ty @ '' results found for '' @ dq @ query @ dq)))
     \<and> (l_operation b = L_search \<and> l_query b = Some query \<and> query \<noteq> [] \<and> l_type b = Some ty \<and>
      api_search api query [ty] (default_to 20 (l_limit b)) = Inr results \<longrightarrow>
        outcome (spotifyLibrary (Inr api) b) = Inr (text_result ''No results''))
     \<and> (\<forall>client t. outcome (searchSpotify client a) = Inr (text_result t) \<longrightarrow> t \<noteq> [])
     \<and> (\<forall>client t. l_operation b = L_search \<and>
           outcome (spotifyLibrary client b) = Inr (text_result t) \<longrightarrow> t \<noteq> [])"
proof -
  have r: "s_query a = query \<and> s_type a = ty \<and>
      api_search api query [ty] (default_to 10 (s_limit a)) = Inr results \<longrightarrow>
        outcome (searchSpotify (Inr api) a) =
          Inr (text_result (''No '' @ type_str ty @ '' results found for '' @ dq @ query @ dq))"
    using assms by (auto simp: searchSpotify_def eff_defs searchSpotify_results_empty)
  have l: "l_operation b = L_search \<and> l_query b = Some query \<and> query \<noteq> [] \<and> l_type b = Some ty \<and>
      api_search api query [ty] (default_to 20 (l_limit b)) = Inr results \<longrightarrow>
        outcome (spotifyLibrary (Inr api) b) = Inr (text_result ''No results'')"
    using assms
    by (auto simp: spotifyLibrary_def library_search_def l_limit_of_def eff_defs
        library_search_text_empty or_else_def)
  have rn: "\<forall>client t. outcome (searchSpotify client a) = Inr (text_result t) \<longrightarrow> t \<noteq> []"
    by (auto simp: searchSpotify_def eff_defs Let_def split: sum.splits if_splits)
  have ln: "\<forall>client t. l_operation b = L_search \<and>
           outcome (spotifyLibrary client b) = Inr (text_result t) \<longrightarrow> t \<noteq> []"
    by (auto simp: spotifyLibrary_def library_search_def eff_defs or_else_def
        split: sum.splits if_splits option.splits)
  from r l rn ln show ?thesis by blast
qed

text \<open>The sample client finds no track for the query \<open>abba\<close>.\<close>

theorem search_without_results_witness:
  "result_count Track \<lparr>sr_tracks = Some [], sr_albums = Some [], sr_artists = Some [],
             sr_playlists = Some []\<rparr> = 0
   \<and> outcome (searchSpotify (Inr sample_api) \<lparr>s_query = ''abba'', s_type = Track, s_limit = None\<rparr>)
       = Inr (text_result (''No track results found for '' @ dq @ ''abba'' @ dq))"
proof -
  let ?r = "\<lparr>sr_tracks = Some [], sr_albums = Some [], sr_artists = Some [],
             sr_playlists = Some []\<rparr>"
  let ?a = "\<lparr>s_query = ''abba'', s_type = Track, s_limit = None\<rparr>"
  have h: "result_count Track ?r = 0" by (simp add: result_count_def)
  have q: "s_query ?a = ''abba'' \<and> s_type ?a = Track \<and>
      api_search sample_api ''abba'' [Track] (default_to 10 (s_limit ?a)) = Inr ?r"
    by (simp add: sample_api_def)
  from search_without_results [OF h, of ?a "''abba''" sample_api] q
  have "outcome (searchSpotify (Inr sample_api) ?a) =
          Inr (text_result (''No '' @ type_str Track @ '' results found for '' @ dq @ ''abba'' @ dq))"
    by blast
  with h show ?thesis by simp
qed

text \<open>
  The claim as stated fails for the library tool: its reply to a search without results
  is \<open>No results\<close> and does not start with \<open>No track results found\<close>.
\<close>

theorem library_search_counterexample:
  "outcome (spotifyLibrary (Inr sample_api)
      ((library_only L_search)\<lparr>l_query := Some ''abba'', l_type := Some Track\<rparr>))
     = Inr (text_result ''No results'')
   \<and> \<not> prefix ''No track results found'' ''No results''"
  by (simp add: spotifyLibrary_def library_search_def library_only_def sample_api_def
      l_limit_of_def default_to_def eff_defs library_search_text_def or_else_def)

section \<open>Validation in the playback tool\<close>

text \<open>
  Claim C5, as amended. The \<open>play\<close> and \<open>queue\<close> operations of the playback tool treat
  an empty string like an absent argument. For every argument record in which \<open>uri\<close> is
  absent or empty, and \<open>type\<close> and a non-empty \<open>id\<close> are not both present, they return
  the validation-error text and send no request, whatever the state of the client. When
  \<open>uri\<close> is present and not empty, or \<open>type\<close> is present and \<open>id\<close> is present and not
  empty, they do not return the validation error, and with a ready client they send
  exactly one request.
\<close>

theorem play_queue_validation:
  assumes "p_operation args = P_play \<or> p_operation args = P_queue"
  shows
    "(missing (p_uri args) \<and> (p_type args = None \<or> missing (p_id args)) \<longrightarrow>
        spotifyPlayback client args =
          ([], Inr (text_result ''Error: Provide uri OR type+id'')))
     \<and> (\<not> missing (p_uri args) \<or> (p_type args \<noteq> None \<and> \<not> missing (p_id args)) \<longrightarrow>
        outcome (spotifyPlayback client args) \<noteq>
          Inr (text_result ''Error: Provide uri OR type+id'')
        \<and> (\<forall>api. client = Inr api \<longrightarrow> length (calls (spotifyPlayback client args)) = 1))"
proof -
  have v: "uri_or_type_id args \<longleftrightarrow>
      (\<not> missing (p_uri args) \<or> (p_type args \<noteq> None \<and> \<not> missing (p_id args)))"
    by (auto simp: uri_or_type_id_def truthy_def missing_def split: option.splits)
  have e: "\<not> uri_or_type_id args \<Longrightarrow>
      spotifyPlayback client args = ([], Inr (text_result ''Error: Provide uri OR type+id''))"
    using assms
    by (auto simp: spotifyPlayback_def playback_play_def playback_queue_def done_with_def)
  have o: "uri_or_type_id args \<Longrightarrow>
      outcome (spotifyPlayback client args) \<noteq> Inr (text_result ''Error: Provide uri OR type+id'')"
    using assms
    by (auto simp: spotifyPlayback_def playback_play_def playback_queue_def eff_defs
        split: sum.splits prod.splits)
  have c: "uri_or_type_id args \<Longrightarrow>
      \<forall>api. client = Inr api \<longrightarrow> length (calls (spotifyPlayback client args)) = 1"
    using assms
    by (auto simp: spotifyPlayback_def playback_play_def playback_queue_def eff_defs
        split: sum.splits prod.splits)
  from v e o c show ?thesis by blast
qed

text \<open>
  The claim as stated fails at an argument record whose \<open>uri\<close> is present and is the
  empty string: the validation error is produced.
\<close>

theorem play_empty_uri_counterexample:
  "p_uri ((playback_only P_play)\<lparr>p_uri := Some ''''\<rparr>) \<noteq> None
   \<and> spotifyPlayback (Inr sample_api) ((playback_only P_play)\<lparr>p_uri := Some ''''\<rparr>) =
       ([], Inr (text_result ''Error: Provide uri OR type+id''))"
  by (simp add: spotifyPlayback_def playback_play_def playback_only_def uri_or_type_id_def
      truthy_def done_with_def)

text \<open>
  \<open>queue\<close> with no argument is rejected; \<open>queue\<close> with the type \<open>track\<close> and the
  identifier \<open>7\<close> is not.
\<close>

theorem play_queue_validation_witness:
  "spotifyPlayback (Inr sample_api) (playback_only P_queue) =
     ([], Inr (text_result ''Error: Provide uri OR type+id''))
   \<and> outcome (spotifyPlayback (Inr sample_api)
        ((playback_only P_queue)\<lparr>p_type := Some Track, p_id := Some ''7''\<rparr>)) \<noteq>
       Inr (text_result ''Error: Provide uri OR type+id'')"
proof -
  have a: "p_operation (playback_only P_queue) = P_play \<or>
           p_operation (playback_only P_queue) = P_queue"
    by (simp add: playback_only_def)
  have m: "missing (p_uri (playback_only P_queue)) \<and>
     (p_type (playback_only P_queue) = None \<or> missing (p_id (playback_only P_queue)))"
    by (simp add: playback_only_def missing_def)
  let ?b = "(playback_only P_queue)\<lparr>p_type := Some Track, p_id := Some ''7''\<rparr>"
  have b: "p_operation ?b = P_play \<or> p_operation ?b = P_queue"
    by (simp add: playback_only_def)
  have n: "\<not> missing (p_uri ?b) \<or> (p_type ?b \<noteq> None \<and> \<not> missing (p_id ?b))"
    by (simp add: missing_def)
  from play_queue_validation [OF a, of "Inr sample_api"] m
  have 1: "spotifyPlayback (Inr sample_api) (playback_only P_queue) =
     ([], Inr (text_result ''Error: Provide uri OR type+id''))" by blast
  from play_queue_validation [OF b, of "Inr sample_api"] n
  have 2: "outcome (spotifyPlayback (Inr sample_api) ?b) \<noteq>
       Inr (text_result ''Error: Provide uri OR type+id'')" by blast
  from 1 2 show ?thesis by blast
qed

text \<open>
  Claim C6, as amended. The \<open>add_to_playlist\<close> operation returns the validation-error
  text and sends no request whenever \<open>track_ids\<close> is absent or empty or \<open>playlist_id\<close> is
  absent or empty. Otherwise, for every non-empty \<open>track_ids\<close> list, the one request it
  sends carries the playlist identifier, the optional position, and exactly the list in
  which each identifier of the input has become \<open>spotify:track:<id>\<close>, in input order.
\<close>

theorem add_to_playlist_validation:
  assumes "p_operation args = P_add_to_playlist"
  shows
    "(missing (p_track_ids args) \<or> missing (p_playlist_id args) \<longrightarrow>
        spotifyPlayback client args =
          ([], Inr (text_result ''Error: playlist_id and track_ids required'')))
     \<and> (\<forall>playlist_id track_ids api.
          p_playlist_id args = Some playlist_id \<and> playlist_id \<noteq> [] \<and>
          p_track_ids args = Some track_ids \<and> track_ids \<noteq> [] \<longrightarrow>
            calls (spotifyPlayback (Inr api) args) =
              [AddItemsToPlaylist playlist_id
                 (map (\<lambda>id. ''spotify:track:'' @ id) track_ids) (p_position args)])"
proof -
  have e: "missing (p_track_ids args) \<or> missing (p_playlist_id args) \<Longrightarrow>
        spotifyPlayback client args =
          ([], Inr (text_result ''Error: playlist_id and track_ids required''))"
    using assms
    by (auto simp: spotifyPlayback_def playback_add_to_playlist_def done_with_def missing_def
        split: option.splits)
  have c: "\<forall>playlist_id track_ids api.
          p_playlist_id args = Some playlist_id \<and> playlist_id \<noteq> [] \<and>
          p_track_ids args = Some track_ids \<and> track_ids \<noteq> [] \<longrightarrow>
            calls (spotifyPlayback (Inr api) args) =
              [AddItemsToPlaylist playlist_id
                 (map (\<lambda>id. ''spotify:track:'' @ id) track_ids) (p_position args)]"
    using assms
    by (auto simp: spotifyPlayback_def playback_add_to_playlist_def eff_defs
        split: sum.splits)
  from e c show ?thesis by blast
qed

text \<open>
  The claim as stated fails at an argument record whose \<open>playlist_id\<close> is present and is
  the empty string, with a non-empty \<open>track_ids\<close>: the validation error is returned and
  no list is passed on.
\<close>

theorem add_to_playlist_empty_id_counterexample:
  "p_playlist_id ((playback_only P_add_to_playlist)
        \<lparr>p_playlist_id := Some '''', p_track_ids := Some [''t1'']\<rparr>) \<noteq> None
   \<and> spotifyPlayback (Inr sample_api)
      ((playback_only P_add_to_playlist)\<lparr>p_playlist_id := Some '''', p_track_ids := Some [''t1'']\<rparr>)
     = ([], Inr (text_result ''Error: playlist_id and track_ids required''))"
  by (simp add: spotifyPlayback_def playback_add_to_playlist_def playback_only_def done_with_def)

text \<open>Two track identifiers for the playlist \<open>pl\<close>.\<close>

theorem add_to_playlist_validation_witness:
  "calls (spotifyPlayback (Inr sample_api)
      ((playback_only P_add_to_playlist)
         \<lparr>p_playlist_id := Some ''pl'', p_track_ids := Some [''t1'', ''t2'']\<rparr>))
     = [AddItemsToPlaylist ''pl'' [''spotify:track:t1'', ''spotify:track:t2''] None]"
proof -
  let ?a = "(playback_only P_add_to_playlist)
         \<lparr>p_playlist_id := Some ''pl'', p_track_ids := Some [''t1'', ''t2'']\<rparr>"
  have h: "p_operation ?a = P_add_to_playlist" by (simp add: playback_only_def)
  have g: "p_playlist_id ?a = Some ''pl'' \<and> ''pl'' \<noteq> [] \<and>
          p_track_ids ?a = Some [''t1'', ''t2''] \<and> [''t1'', ''t2''] \<noteq> ([] :: string list)"
    by simp
  have p: "p_position ?a = None" by (simp add: playback_only_def)
  from add_to_playlist_validation [OF h, of "Inr sample_api"] g
  have "calls (spotifyPlayback (Inr sample_api) ?a) =
              [AddItemsToPlaylist ''pl''
                 (map (\<lambda>id. ''spotify:track:'' @ id) [''t1'', ''t2'']) (p_position ?a)]"
    by blast
  with p show ?thesis by simp
qed

section \<open>Pagination headers\<close>

text \<open>
  Claim C7, as amended. The offset is an integer, 0 when it is not given. For every
  offset and every non-empty page of entries that the external service returns, with
  offset + 1, offset + the number of entries and the total all below \<open>2^53\<close>, the
  replies of \<open>getPlaylistTracks\<close> and \<open>getUsersSavedTracks\<close> (\<open>read.ts\<close>) start with a
  header that shows the range from offset + 1 to offset + the number of entries
  returned, and the total as the service supplied it; on an empty page they reply with a
  fixed sentence instead. Under the same bound the operations \<open>playlist_tracks\<close> and
  \<open>saved_tracks\<close> of the library tool start with such a header for every page, the
  empty one included. The header reports the three numbers exactly: two headers are
  equal only when offset, number of entries and total are.
\<close>

theorem pagination_header:
  "(api_getPlaylistItems api (pt_playlistId a) (default_to 50 (pt_limit a))
       (default_to 0 (pt_offset a)) = Inr page \<and> items page \<noteq> [] \<and>
      safe_integer (default_to 0 (pt_offset a) + 1) \<and>
      safe_integer (default_to 0 (pt_offset a) + length (items page)) \<and>
      safe_integer (total page) \<longrightarrow>
      (\<exists>body. outcome (getPlaylistTracks (Inr api) a) =
         Inr (text_result (''# Tracks in Playlist ('' @
           range_text (default_to 0 (pt_offset a)) (length (items page)) (total page) @
           '')'' @ newline @ newline @ body))))
   \<and> (api_savedTracks api (default_to 50 (st_limit b)) (default_to 0 (st_offset b)) = Inr saved \<and>
      items saved \<noteq> [] \<and>
      safe_integer (default_to 0 (st_offset b) + 1) \<and>
      safe_integer (default_to 0 (st_offset b) + length (items saved)) \<and>
      safe_integer (total saved) \<longrightarrow>
      (\<exists>body. outcome (getUsersSavedTracks fmt (Inr api) b) =
         Inr (text_result (''# Your Liked Songs ('' @
           range_text (default_to 0 (st_offset b)) (length (items saved)) (total saved) @
           '')'' @ newline @ newline @ body))))
   \<and> (l_operation c = L_playlist_tracks \<and> l_playlist_id c = Some pid \<and> pid \<noteq> [] \<and>
      api_getPlaylistItems api pid (default_to 20 (l_limit c)) (default_to 0 (l_offset c)) =
        Inr page' \<and>
      safe_integer (default_to 0 (l_offset c) + 1) \<and>
      safe_integer (default_to 0 (l_offset c) + length (items page')) \<and>
      safe_integer (total page') \<longrightarrow>
      (\<exists>body. outcome (spotifyLibrary (Inr api) c) =
         Inr (text_result (''Tracks '' @
           range_text (default_to 0 (l_offset c)) (length (items page')) (total page') @
           newline @ newline @ body))))
   \<and> (l_operation d = L_saved_tracks \<and>
      api_savedTracks api (default_to 20 (l_limit d)) (default_to 0 (l_offset d)) = Inr saved' \<and>
      safe_integer (default_to 0 (l_offset d) + 1) \<and>
      safe_integer (default_to 0 (l_offset d) + length (items saved')) \<and>
      safe_integer (total saved') \<longrightarrow>
      (\<exists>body. outcome (spotifyLibrary (Inr api) d) =
         Inr (text_result (''Liked Songs '' @
           range_text (default_to 0 (l_offset d)) (length (items saved')) (total saved') @
           newline @ newline @ body))))
   \<and> (api_getPlaylistItems api (pt_playlistId a) (default_to 50 (pt_limit a))
       (default_to 0 (pt_offset a)) = Inr page \<and> items page = [] \<longrightarrow>
      outcome (getPlaylistTracks (Inr api) a) =
        Inr (text_result (''This playlist doesn'' @ [CHR 0x27] @ ''t have any tracks'')))
   \<and> (api_savedTracks api (default_to 50 (st_limit b)) (default_to 0 (st_offset b)) = Inr saved \<and>
      items saved = [] \<longrightarrow>
      outcome (getUsersSavedTracks fmt (Inr api) b) =
        Inr (text_result
          (''You don'' @ [CHR 0x27] @ ''t have any saved tracks in your Liked Songs'')))
   \<and> (\<forall>o1 n1 t1 o2 n2 t2.
        range_text o1 n1 t1 = range_text o2 n2 t2 \<longrightarrow> o1 = o2 \<and> n1 = n2 \<and> t1 = t2)"
proof -
  have 1: "api_getPlaylistItems api (pt_playlistId a) (default_to 50 (pt_limit a))
       (default_to 0 (pt_offset a)) = Inr page \<and> items page \<noteq> [] \<and>
      safe_integer (default_to 0 (pt_offset a) + 1) \<and>
      safe_integer (default_to 0 (pt_offset a) + length (items page)) \<and>
      safe_integer (total page) \<longrightarrow>
      (\<exists>body. outcome (getPlaylistTracks (Inr api) a) =
         Inr (text_result (''# Tracks in Playlist ('' @
           range_text (default_to 0 (pt_offset a)) (length (items page)) (total page) @
           '')'' @ newline @ newline @ body)))"
    by (simp add: getPlaylistTracks_def Let_def eff_defs range_text_def)
  have 2: "api_savedTracks api (default_to 50 (st_limit b)) (default_to 0 (st_offset b)) = Inr saved \<and>
      items saved \<noteq> [] \<and>
      safe_integer (default_to 0 (st_offset b) + 1) \<and>
      safe_integer (default_to 0 (st_offset b) + length (items saved)) \<and>
      safe_integer (total saved) \<longrightarrow>
      (\<exists>body. outcome (getUsersSavedTracks fmt (Inr api) b) =
         Inr (text_result (''# Your Liked Songs ('' @
           range_text (default_to 0 (st_offset b)) (length (items saved)) (total saved) @
           '')'' @ newline @ newline @ body)))"
    by (simp add: getUsersSavedTracks_def Let_def eff_defs range_text_def)
  have 3: "l_operation c = L_playlist_tracks \<and> l_playlist_id c = Some pid \<and> pid \<noteq> [] \<and>
      api_getPlaylistItems api pid (default_to 20 (l_limit c)) (default_to 0 (l_offset c)) =
        Inr page' \<and>
      safe_integer (default_to 0 (l_offset c) + 1) \<and>
      safe_integer (default_to 0 (l_offset c) + length (items page')) \<and>
      safe_integer (total page') \<longrightarrow>
      (\<exists>body. outcome (spotifyLibrary (Inr api) c) =
         Inr (text_result (''Tracks '' @
           range_text (default_to 0 (l_offset c)) (length (items page')) (total page') @
           newline @ newline @ body)))"
    by (simp add: spotifyLibrary_def library_playlist_tracks_def l_limit_of_def l_offset_of_def
        eff_defs range_text_def)
  have 4: "l_operation d = L_saved_tracks \<and>
      api_savedTracks api (default_to 20 (l_limit d)) (default_to 0 (l_offset d)) = Inr saved' \<and>
      safe_integer (default_to 0 (l_offset d) + 1) \<and>
      safe_integer (default_to 0 (l_offset d) + length (items saved')) \<and>
      safe_integer (total saved') \<longrightarrow>
      (\<exists>body. outcome (spotifyLibrary (Inr api) d) =
         Inr (text_result (''Liked Songs '' @
           range_text (default_to 0 (l_offset d)) (length (items saved')) (total saved') @
           newline @ newline @ body)))"
    by (simp add: spotifyLibrary_def library_saved_tracks_def l_limit_of_def l_offset_of_def
        eff_defs range_text_def)
  have 5: "api_getPlaylistItems api (pt_playlistId a) (default_to 50 (pt_limit a))
       (default_to 0 (pt_offset a)) = Inr page \<and> items page = [] \<longrightarrow>
      outcome (getPlaylistTracks (Inr api) a) =
        Inr (text_result (''This playlist doesn'' @ [CHR 0x27] @ ''t have any tracks''))"
    by (simp add: getPlaylistTracks_def Let_def eff_defs)
  have 6: "api_savedTracks api (default_to 50 (st_limit b)) (default_to 0 (st_offset b)) = Inr saved \<and>
      items saved = [] \<longrightarrow>
      outcome (getUsersSavedTracks fmt (Inr api) b) =
        Inr (text_result
          (''You don'' @ [CHR 0x27] @ ''t have any saved tracks in your Liked Songs''))"
    by (simp add: getUsersSavedTracks_def Let_def eff_defs)
  have 7: "\<forall>o1 n1 t1 o2 n2 t2.
        range_text o1 n1 t1 = range_text o2 n2 t2 \<longrightarrow> o1 = o2 \<and> n1 = n2 \<and> t1 = t2"
    using range_text_inject by blast
  from 1 2 3 4 5 6 7 show ?thesis by blast
qed

text \<open>
  The claim as stated fails at the empty page: \<open>getPlaylistTracks\<close> replies with a fixed
  sentence and shows neither a range nor a total.
\<close>

theorem empty_page_counterexample:
  "outcome (getPlaylistTracks (Inr empty_pages_api)
      \<lparr>pt_playlistId = ''p'', pt_limit = None, pt_offset = None\<rparr>)
     = Inr (text_result (''This playlist doesn'' @ [CHR 0x27] @ ''t have any tracks''))"
  by (simp add: getPlaylistTracks_def default_to_def empty_pages_api_def sample_api_def eff_defs)

text \<open>Offset 20 and a page of three entries out of 40: the header shows 21-23 of 40.\<close>

theorem pagination_header_witness:
  "safe_integer (20 + 1) \<and> safe_integer (20 + 3) \<and> safe_integer 40
   \<and> (\<exists>body. outcome (getPlaylistTracks (Inr sample_api)
          \<lparr>pt_playlistId = ''p'', pt_limit = None, pt_offset = Some 20\<rparr>)
        = Inr (text_result (''# Tracks in Playlist (21-23 of 40)'' @ newline @ newline @ body)))"
proof -
  let ?a = "\<lparr>pt_playlistId = ''p'', pt_limit = None, pt_offset = Some 20\<rparr>"
  let ?page = "\<lparr>items = [None, None, None] :: item_obj option list, total = 40\<rparr>"
  have s: "safe_integer (20 + 1) \<and> safe_integer (20 + 3) \<and> safe_integer 40"
    by (simp add: safe_integer_def)
  have h: "api_getPlaylistItems sample_api (pt_playlistId ?a) (default_to 50 (pt_limit ?a))
       (default_to 0 (pt_offset ?a)) = Inr ?page \<and> items ?page \<noteq> [] \<and>
      safe_integer (default_to 0 (pt_offset ?a) + 1) \<and>
      safe_integer (default_to 0 (pt_offset ?a) + length (items ?page)) \<and>
      safe_integer (total ?page)"
    by (simp add: sample_api_def default_to_def safe_integer_def)
  have r: "range_text (default_to 0 (pt_offset ?a)) (length (items ?page)) (total ?page) =
      ''21-23 of 40''"
    by (simp add: range_text_def default_to_def show_nat_eval)
  from pagination_header [of sample_api ?a ?page] h
  have "\<exists>body. outcome (getPlaylistTracks (Inr sample_api) ?a) =
         Inr (text_result (''# Tracks in Playlist ('' @
           range_text (default_to 0 (pt_offset ?a)) (length (items ?page)) (total ?page) @
           '')'' @ newline @ newline @ body))"
    by blast
  then have "\<exists>body. outcome (getPlaylistTracks (Inr sample_api) ?a) =
      Inr (text_result (''# Tracks in Playlist (21-23 of 40)'' @ newline @ newline @ body))"
    by (simp only: r) simp
  with s show ?thesis by blast
qed

section \<open>Missing required fields\<close>

lemma library_missing_text:
  assumes "library_missing_required la"
  shows "\<exists>msg. spotifyLibrary client la = ([], Inr (text_result (''Error: '' @ msg)))"
proof (cases "l_operation la")
  case L_search
  with assms show ?thesis
    by (auto simp: library_missing_required_def missing_def spotifyLibrary_def
        library_search_def done_with_def split: option.splits)
next
  case L_playlist_tracks
  with assms show ?thesis
    by (auto simp: library_missing_required_def missing_def spotifyLibrary_def
        library_playlist_tracks_def done_with_def)
next
  case L_albums
  with assms show ?thesis
    by (auto simp: library_missing_required_def missing_def spotifyLibrary_def
        library_albums_def done_with_def)
next
  case L_album_tracks
  with assms show ?thesis
    by (auto simp: library_missing_required_def missing_def first_of_def spotifyLibrary_def
        library_album_tracks_def done_with_def split: option.splits list.splits)
next
  case L_save_album
  with assms show ?thesis
    by (auto simp: library_missing_required_def missing_def spotifyLibrary_def
        library_save_album_def done_with_def)
next
  case L_remove_album
  with assms show ?thesis
    by (auto simp: library_missing_required_def missing_def spotifyLibrary_def
        library_remove_album_def done_with_def)
next
  case L_check_saved
  with assms show ?thesis
    by (auto simp: library_missing_required_def missing_def spotifyLibrary_def
        library_check_saved_def done_with_def)
qed (use assms in \<open>simp_all add: library_missing_required_def\<close>)

lemma playback_missing_text:
  assumes "playback_missing_required pa"
  shows "\<exists>msg. spotifyPlayback client pa = ([], Inr (text_result (''Error: '' @ msg)))"
proof (cases "p_operation pa")
  case P_play
  with assms show ?thesis
    by (auto simp: playback_missing_required_def missing_def spotifyPlayback_def
        playback_play_def uri_or_type_id_def truthy_def done_with_def)
next
  case P_queue
  with assms show ?thesis
    by (auto simp: playback_missing_required_def missing_def spotifyPlayback_def
        playback_queue_def uri_or_type_id_def truthy_def done_with_def)
next
  case P_create_playlist
  with assms show ?thesis
    by (auto simp: playback_missing_required_def missing_def spotifyPlayback_def
        playback_create_playlist_def done_with_def)
next
  case P_add_to_playlist
  with assms show ?thesis
    by (auto simp: playback_missing_required_def missing_def spotifyPlayback_def
        playback_add_to_playlist_def done_with_def split: option.splits)
qed (use assms in \<open>simp_all add: playback_missing_required_def\<close>)

lemma info_missing_text:
  assumes "info_missing_required ia"
  shows "\<exists>msg. spotifyInfo ops client ia = ([], Inr (text_result (''Error: '' @ msg)))"
proof (cases "i_operation ia")
  case I_audio_features
  with assms show ?thesis
    by (auto simp: info_missing_required_def missing_def spotifyInfo_def
        info_audio_features_def done_with_def)
qed (use assms in \<open>simp_all add: info_missing_required_def\<close>)

text \<open>
  The three predicates describe the checks exactly: an argument record for which they do
  not hold passes the check, and with a ready client the handler sends a request.
\<close>

lemma await_calls_not_empty:
  "calls m \<noteq> [] \<Longrightarrow> calls (await m f) \<noteq> []"
  by (auto simp: await_def calls_def split: prod.splits sum.splits)

lemma request_calls [simp]: "calls (request c a) = [c]"
  by (simp add: request_def calls_def)

lemma library_passes_then_request:
  assumes "\<not> library_missing_required la"
  shows "calls (spotifyLibrary (Inr api) la) \<noteq> []"
proof (cases "l_operation la")
  case L_search
  with assms show ?thesis
    by (auto simp: library_missing_required_def missing_def spotifyLibrary_def
        library_search_def handleSpotifyRequest_def intro!: await_calls_not_empty
        split: option.splits)
next
  case L_playlists
  then show ?thesis
    by (auto simp: spotifyLibrary_def library_playlists_def handleSpotifyRequest_def
        intro!: await_calls_not_empty)
next
  case L_playlist_tracks
  with assms show ?thesis
    by (auto simp: library_missing_required_def missing_def spotifyLibrary_def
        library_playlist_tracks_def handleSpotifyRequest_def intro!: await_calls_not_empty
        split: option.splits)
next
  case L_saved_tracks
  then show ?thesis
    by (auto simp: spotifyLibrary_def library_saved_tracks_def handleSpotifyRequest_def
        intro!: await_calls_not_empty)
next
  case L_recently_played
  then show ?thesis
    by (auto simp: spotifyLibrary_def library_recently_played_def handleSpotifyRequest_def
        intro!: await_calls_not_empty)
next
  case L_albums
  with assms show ?thesis
    by (auto simp: library_missing_required_def missing_def spotifyLibrary_def
        library_albums_def handleSpotifyRequest_def intro!: await_calls_not_empty
        split: option.splits)
next
  case L_album_tracks
  with assms show ?thesis
    by (auto simp: library_missing_required_def missing_def first_of_def spotifyLibrary_def
        library_album_tracks_def handleSpotifyRequest_def intro!: await_calls_not_empty
        split: option.splits list.splits)
next
  case L_save_album
  with assms show ?thesis
    by (auto simp: library_missing_required_def missing_def spotifyLibrary_def
        library_save_album_def handleSpotifyRequest_def intro!: await_calls_not_empty
        split: option.splits)
next
  case L_remove_album
  with assms show ?thesis
    by (auto simp: library_missing_required_def missing_def spotifyLibrary_def
        library_remove_album_def handleSpotifyRequest_def intro!: await_calls_not_empty
        split: option.splits)
next
  case L_check_saved
  with assms show ?thesis
    by (auto simp: library_missing_required_def missing_def spotifyLibrary_def
        library_check_saved_def handleSpotifyRequest_def intro!: await_calls_not_empty
        split: option.splits)
qed

lemma playback_passes_then_request:
  assumes "\<not> playback_missing_required pa"
  shows "calls (spotifyPlayback (Inr api) pa) \<noteq> []"
proof (cases "p_operation pa")
  case P_play
  with assms show ?thesis
    by (auto simp: playback_missing_required_def missing_def spotifyPlayback_def
        playback_play_def uri_or_type_id_def truthy_def handleSpotifyRequest_def
        intro!: await_calls_not_empty split: option.splits)
next
  case P_pause
  then show ?thesis
    by (auto simp: spotifyPlayback_def playback_pause_def handleSpotifyRequest_def
        intro!: await_calls_not_empty)
next
  case P_resume
  then show ?thesis
    by (auto simp: spotifyPlayback_def playback_resume_def handleSpotifyRequest_def
        intro!: await_calls_not_empty)
next
  case P_skip_next
  then show ?thesis
    by (auto simp: spotifyPlayback_def playback_skip_next_def handleSpotifyRequest_def
        intro!: await_calls_not_empty)
next
  case P_skip_prev
  then show ?thesis
    by (auto simp: spotifyPlayback_def playback_skip_prev_def handleSpotifyRequest_def
        intro!: await_calls_not_empty)
next
  case P_queue
  with assms show ?thesis
    by (auto simp: playback_missing_required_def missing_def spotifyPlayback_def
        playback_queue_def uri_or_type_id_def truthy_def handleSpotifyRequest_def
        intro!: await_calls_not_empty split: option.splits)
next
  case P_create_playlist
  with assms show ?thesis
    by (auto simp: playback_missing_required_def missing_def spotifyPlayback_def
        playback_create_playlist_def handleSpotifyRequest_def
        intro!: await_calls_not_empty split: option.splits)
next
  case P_add_to_playlist
  with assms show ?thesis
    by (auto simp: playback_missing_required_def missing_def spotifyPlayback_def
        playback_add_to_playlist_def handleSpotifyRequest_def
        intro!: await_calls_not_empty split: option.splits)
qed

lemma info_passes_then_request:
  assumes "\<not> info_missing_required ia"
  shows "calls (spotifyInfo ops (Inr api) ia) \<noteq> []"
proof (cases "i_operation ia")
  case I_now_playing
  then show ?thesis
    by (auto simp: spotifyInfo_def info_now_playing_def handleSpotifyRequest_def
        intro!: await_calls_not_empty)
next
  case I_enriched_now_playing
  then show ?thesis
    by (auto simp: spotifyInfo_def info_enriched_now_playing_def handleSpotifyRequest_def
        intro!: await_calls_not_empty)
next
  case I_queue
  then show ?thesis
    by (auto simp: spotifyInfo_def info_queue_def handleSpotifyRequest_def
        intro!: await_calls_not_empty)
next
  case I_audio_features
  with assms show ?thesis
    by (auto simp: info_missing_required_def missing_def spotifyInfo_def
        info_audio_features_def handleSpotifyRequest_def
        intro!: await_calls_not_empty split: option.splits)
qed

text \<open>
  Claim C8. For each of the three tool handlers and every argument record that fails the
  required-field check of its operation (a missing query or type for \<open>search\<close>, a missing
  \<open>playlist_id\<close>, \<open>album_ids\<close>, name, \<open>track_id\<close> or \<open>track_ids\<close>, or neither a uri nor
  a type with an id for \<open>play\<close> and \<open>queue\<close>), the handler returns normally with a text
  reply that starts with \<open>Error: \<close>. It throws nothing and sends no request, whatever
  the client is: one that cannot be obtained, or one whose every method throws.
\<close>

theorem missing_field_gives_error_text:
  "(library_missing_required la \<longrightarrow>
      (\<exists>msg. spotifyLibrary client la = ([], Inr (text_result (''Error: '' @ msg)))))
   \<and> (playback_missing_required pa \<longrightarrow>
      (\<exists>msg. spotifyPlayback client pa = ([], Inr (text_result (''Error: '' @ msg)))))
   \<and> (info_missing_required ia \<longrightarrow>
      (\<exists>msg. spotifyInfo ops client ia = ([], Inr (text_result (''Error: '' @ msg)))))"
  using library_missing_text playback_missing_text info_missing_text by blast

text \<open>
  Three records with nothing but the operation, and a client that cannot be obtained.
\<close>

theorem missing_field_gives_error_text_witness:
  "library_missing_required (library_only L_playlist_tracks)
   \<and> playback_missing_required (playback_only P_create_playlist)
   \<and> info_missing_required (info_only I_audio_features)
   \<and> (\<exists>msg. spotifyLibrary (Inl (Error ''no token'') :: error + unit spotify_api)
         (library_only L_playlist_tracks) = ([], Inr (text_result (''Error: '' @ msg))))
   \<and> (\<exists>msg. spotifyPlayback (Inl (Error ''no token'') :: error + unit spotify_api)
         (playback_only P_create_playlist) = ([], Inr (text_result (''Error: '' @ msg))))
   \<and> (\<exists>msg. spotifyInfo sample_ops (Inl (Error ''no token''))
         (info_only I_audio_features) = ([], Inr (text_result (''Error: '' @ msg))))"
proof -
  have l: "library_missing_required (library_only L_playlist_tracks)"
    by (simp add: library_missing_required_def library_only_def missing_def)
  have p: "playback_missing_required (playback_only P_create_playlist)"
    by (simp add: playback_missing_required_def playback_only_def missing_def)
  have i: "info_missing_required (info_only I_audio_features)"
    by (simp add: info_missing_required_def info_only_def missing_def)
  from missing_field_gives_error_text
    [of "library_only L_playlist_tracks" "Inl (Error ''no token'')"
        "playback_only P_create_playlist" "info_only I_audio_features" sample_ops]
    l p i
  show ?thesis by blast
qed

section \<open>The count in the success message\<close>

text \<open>
  Claim C10. For every \<open>album_ids\<close> list given to \<open>save_album\<close> or \<open>remove_album\<close>, the
  success message reports the length of the whole list: any text the handler returns
  other than the validation error is \<open>Saved <n> album(s)\<close>, respectively
  \<open>Removed <n> album(s)\<close>, with \<open>n\<close> the length of the list supplied. The message is
  returned whenever the list is not empty and the external call returns, also when the
  list has more than 20 elements and the request carried only its first 20. The number
  can be read back from the message: no other number gives the same text.
\<close>

theorem album_count_in_success_message:
  assumes "l_album_ids args = Some ids"
  shows
    "(l_operation args = L_save_album \<longrightarrow>
        (\<forall>t. outcome (spotifyLibrary client args) = Inr (text_result t) \<and>
              t \<noteq> ''Error: album_ids required'' \<longrightarrow>
              t = ''Saved '' @ show_nat (length ids) @ '' album(s)'')
        \<and> (\<forall>api. ids \<noteq> [] \<and> api_saveAlbums api (take 20 ids) = Inr () \<longrightarrow>
              spotifyLibrary (Inr api) args =
                ([SaveAlbums (take 20 ids)],
                 Inr (text_result (''Saved '' @ show_nat (length ids) @ '' album(s)'')))))
     \<and> (l_operation args = L_remove_album \<longrightarrow>
        (\<forall>t. outcome (spotifyLibrary client args) = Inr (text_result t) \<and>
              t \<noteq> ''Error: album_ids required'' \<longrightarrow>
              t = ''Removed '' @ show_nat (length ids) @ '' album(s)'')
        \<and> (\<forall>api. ids \<noteq> [] \<and> api_removeSavedAlbums api (take 20 ids) = Inr () \<longrightarrow>
              spotifyLibrary (Inr api) args =
                ([RemoveSavedAlbums (take 20 ids)],
                 Inr (text_result (''Removed '' @ show_nat (length ids) @ '' album(s)'')))))
     \<and> (\<forall>n. ''Saved '' @ show_nat n @ '' album(s)'' =
              ''Saved '' @ show_nat (length ids) @ '' album(s)'' \<longrightarrow> n = length ids)
     \<and> (\<forall>n. ''Removed '' @ show_nat n @ '' album(s)'' =
              ''Removed '' @ show_nat (length ids) @ '' album(s)'' \<longrightarrow> n = length ids)"
proof -
  have s1: "l_operation args = L_save_album \<Longrightarrow>
        \<forall>t. outcome (spotifyLibrary client args) = Inr (text_result t) \<and>
              t \<noteq> ''Error: album_ids required'' \<longrightarrow>
              t = ''Saved '' @ show_nat (length ids) @ '' album(s)''"
    using assms
    by (auto simp: spotifyLibrary_def library_save_album_def eff_defs
        split: sum.splits if_splits)
  have s2: "l_operation args = L_save_album \<Longrightarrow>
        \<forall>api. ids \<noteq> [] \<and> api_saveAlbums api (take 20 ids) = Inr () \<longrightarrow>
              spotifyLibrary (Inr api) args =
                ([SaveAlbums (take 20 ids)],
                 Inr (text_result (''Saved '' @ show_nat (length ids) @ '' album(s)'')))"
    using assms
    by (auto simp: spotifyLibrary_def library_save_album_def eff_defs)
  have r1: "l_operation args = L_remove_album \<Longrightarrow>
        \<forall>t. outcome (spotifyLibrary client args) = Inr (text_result t) \<and>
              t \<noteq> ''Error: album_ids required'' \<longrightarrow>
              t = ''Removed '' @ show_nat (length ids) @ '' album(s)''"
    using assms
    by (auto simp: spotifyLibrary_def library_remove_album_def eff_defs
        split: sum.splits if_splits)
  have r2: "l_operation args = L_remove_album \<Longrightarrow>
        \<forall>api. ids \<noteq> [] \<and> api_removeSavedAlbums api (take 20 ids) = Inr () \<longrightarrow>
              spotifyLibrary (Inr api) args =
                ([RemoveSavedAlbums (take 20 ids)],
                 Inr (text_result (''Removed '' @ show_nat (length ids) @ '' album(s)'')))"
    using assms
    by (auto simp: spotifyLibrary_def library_remove_album_def eff_defs)
  have i1: "\<forall>n. ''Saved '' @ show_nat n @ '' album(s)'' =
              ''Saved '' @ show_nat (length ids) @ '' album(s)'' \<longrightarrow> n = length ids"
    by (auto dest: show_nat_inject)
  have i2: "\<forall>n. ''Removed '' @ show_nat n @ '' album(s)'' =
              ''Removed '' @ show_nat (length ids) @ '' album(s)'' \<longrightarrow> n = length ids"
    by (auto dest: show_nat_inject)
  from s1 s2 r1 r2 i1 i2 show ?thesis by blast
qed

text \<open>A list of 21 identifiers: 20 are sent, 21 are reported.\<close>

theorem album_count_in_success_message_witness:
  "spotifyLibrary (Inr sample_api)
      ((library_only L_save_album)\<lparr>l_album_ids := Some (replicate 21 ''x'')\<rparr>)
     = ([SaveAlbums (replicate 20 ''x'')], Inr (text_result ''Saved 21 album(s)''))"
proof -
  let ?a = "(library_only L_save_album)\<lparr>l_album_ids := Some (replicate 21 ''x'')\<rparr>"
  have h: "l_album_ids ?a = Some (replicate 21 ''x'')" by simp
  have o: "l_operation ?a = L_save_album" by (simp add: library_only_def)
  have g: "replicate 21 ''x'' \<noteq> [] \<and>
      api_saveAlbums sample_api (take 20 (replicate 21 ''x'')) = Inr ()"
    by (simp add: sample_api_def)
  from album_count_in_success_message [OF h, of "Inr sample_api"] o g
  have "spotifyLibrary (Inr sample_api) ?a =
                ([SaveAlbums (take 20 (replicate 21 ''x''))],
                 Inr (text_result (''Saved '' @ show_nat (length (replicate 21 ''x'')) @ '' album(s)'')))"
    by blast
  then show ?thesis by (simp add: show_nat_eval)
qed

end
